theory Spec2Isabelle
  imports Complex_Main
begin

section \<open>Values of the JavaScript program\<close>

text \<open>
  The worker of \<^verbatim>\<open>src/index.js\<close> handles JSON documents (the token's header and
  payload, the discovery document, the key set). A JSON value as \<^verbatim>\<open>JSON.parse\<close>
  returns it: an object lists its own properties, each name once, in insertion order.
  Numbers are IEEE doubles in JavaScript; the model keeps a finite one as the rational it
  is (a number too large for a double, which \<^verbatim>\<open>JSON.parse\<close> reads as an infinity, is not
  among these values).
\<close>

datatype json =
    JNull
  | JBool bool
  | JNum rat
  | JStr string
  | JArr "json list"
  | JObj "(string \<times> json) list"

text \<open>
  What a property read can give: \<^verbatim>\<open>undefined\<close>, a JSON value, or a built-in method
  inherited from a prototype (\<^verbatim>\<open>Array.prototype.keys\<close>, \<^verbatim>\<open>String.prototype.sub\<close>).
\<close>

datatype jsval = Undefined | Val json | Function

text \<open>
  Exceptions. \<open>Error m\<close> is the program's own \<^verbatim>\<open>new Error(m)\<close>;
  \<open>InvalidCharacterError\<close> is the \<^verbatim>\<open>DOMException\<close> of \<^verbatim>\<open>atob\<close>; \<open>TypeError\<close> is raised
  by the engine (a property read on \<^verbatim>\<open>null\<close> or \<^verbatim>\<open>undefined\<close>, a call of something
  that is not a function); \<open>SyntaxError\<close> is what \<^verbatim>\<open>JSON.parse\<close> raises;
  \<open>HostException n\<close> is any other exception that a platform interface (\<^verbatim>\<open>fetch\<close>,
  \<^verbatim>\<open>crypto.subtle\<close>) rejects with, \<open>n\<close> being its name.
\<close>

datatype js_error =
    Error string
  | InvalidCharacterError
  | TypeError
  | SyntaxError
  | HostException string

text \<open>Numbers as operands of \<^verbatim>\<open>*\<close> and \<^verbatim>\<open><\<close>.\<close>

datatype jsnum = Num rat | NaN | PosInf | NegInf

text \<open>\<^verbatim>\<open>a < b\<close> on numbers: false as soon as one side is \<^verbatim>\<open>NaN\<close>.\<close>

fun js_lt :: "jsnum \<Rightarrow> jsnum \<Rightarrow> bool" where
  "js_lt NaN b = False"
| "js_lt a NaN = False"
| "js_lt (Num x) (Num y) = (x < y)"
| "js_lt a NegInf = False"
| "js_lt PosInf b = False"
| "js_lt NegInf b = True"
| "js_lt a PosInf = True"

text \<open>
  Truthiness, as \<^verbatim>\<open>!v\<close>, \<^verbatim>\<open>v && ...\<close> and \<^verbatim>\<open>if (v)\<close> test it: \<^verbatim>\<open>undefined\<close>, \<^verbatim>\<open>null\<close>,
  \<^verbatim>\<open>false\<close>, \<^verbatim>\<open>0\<close> and the empty string are falsy, everything else is truthy.
\<close>

fun truthy :: "jsval \<Rightarrow> bool" where
  "truthy Undefined = False"
| "truthy Function = True"
| "truthy (Val JNull) = False"
| "truthy (Val (JBool b)) = b"
| "truthy (Val (JNum r)) = (r \<noteq> 0)"
| "truthy (Val (JStr s)) = (s \<noteq> [])"
| "truthy (Val (JArr xs)) = True"
| "truthy (Val (JObj ps)) = True"

text \<open>
  Strict equality \<^verbatim>\<open>a === b\<close> of two values read from different parsed documents (or of
  such a value and a string constant): primitives are compared by value; two objects or
  arrays are equal only when they are the same object, which values of different
  documents never are.
\<close>

fun strict_eq :: "jsval \<Rightarrow> jsval \<Rightarrow> bool" where
  "strict_eq Undefined Undefined = True"
| "strict_eq (Val JNull) (Val JNull) = True"
| "strict_eq (Val (JBool a)) (Val (JBool b)) = (a = b)"
| "strict_eq (Val (JNum a)) (Val (JNum b)) = (a = b)"
| "strict_eq (Val (JStr a)) (Val (JStr b)) = (a = b)"
| "strict_eq a b = False"

text \<open>
  The property read \<^verbatim>\<open>v.name\<close>, for the six names the program reads (\<^verbatim>\<open>kid\<close>, \<^verbatim>\<open>keys\<close>,
  \<^verbatim>\<open>jwks_uri\<close>, \<^verbatim>\<open>iss\<close>, \<^verbatim>\<open>exp\<close>, \<^verbatim>\<open>sub\<close>). On \<^verbatim>\<open>null\<close> it raises a \<^verbatim>\<open>TypeError\<close>; on an
  object it is the own property or \<^verbatim>\<open>undefined\<close> (\<^verbatim>\<open>Object.prototype\<close> has none of the six
  names); an array inherits the method \<^verbatim>\<open>keys\<close> and a string the method \<^verbatim>\<open>sub\<close>; a
  boolean or a number has none of them.
\<close>

fun get_prop :: "json \<Rightarrow> string \<Rightarrow> js_error + jsval" where
  "get_prop JNull name = Inl TypeError"
| "get_prop (JObj ps) name =
     Inr (case map_of ps name of None \<Rightarrow> Undefined | Some v \<Rightarrow> Val v)"
| "get_prop (JArr xs) name = Inr (if name = ''keys'' then Function else Undefined)"
| "get_prop (JStr s) name = Inr (if name = ''sub'' then Function else Undefined)"
| "get_prop (JBool b) name = Inr Undefined"
| "get_prop (JNum r) name = Inr Undefined"

section \<open>Strings: \<^verbatim>\<open>split\<close> and \<^verbatim>\<open>atob\<close>\<close>

text \<open>
  A string of the program is a list of characters with codes below 256: the token comes
  from a header of the request, and what \<^verbatim>\<open>atob\<close> returns is a string of bytes.

  \<^verbatim>\<open>s.split(".")\<close>: the pieces between the separators, in order; a string without
  separator is its own single piece and the empty string gives one empty piece.
\<close>

fun split_char :: "char \<Rightarrow> string \<Rightarrow> string list" where
  "split_char c [] = [[]]"
| "split_char c (x # xs) =
     (if x = c then [] # split_char c xs
      else (case split_char c xs of
              [] \<Rightarrow> [[x]]
            | p # ps \<Rightarrow> (x # p) # ps))"

text \<open>
  \<^verbatim>\<open>atob\<close> is the platform's decoder of standard base64 (the forgiving-base64 decode of
  the WHATWG Infra standard): ASCII whitespace is removed; when the length is then a
  multiple of four, one or two trailing \<^verbatim>\<open>=\<close> are removed; a length of 1 modulo 4 fails;
  a character outside \<^verbatim>\<open>A-Z a-z 0-9 + /\<close> fails; each character gives six bits, four
  characters give three bytes, a final group of two or three characters gives one or two
  bytes. A failure raises \<open>InvalidCharacterError\<close>. The result is a string of bytes.
\<close>

definition ascii_whitespace :: "char \<Rightarrow> bool" where
  "ascii_whitespace c \<longleftrightarrow> of_char c \<in> {9, 10, 12, 13, 32 :: nat}"

definition b64_value :: "char \<Rightarrow> nat option" where
  "b64_value c =
     (let n = of_char c :: nat in
      if 65 \<le> n \<and> n \<le> 90 then Some (n - 65)
      else if 97 \<le> n \<and> n \<le> 122 then Some (n - 71)
      else if 48 \<le> n \<and> n \<le> 57 then Some (n + 4)
      else if n = 43 then Some 62
      else if n = 47 then Some 63
      else None)"

definition strip_padding :: "string \<Rightarrow> string" where
  "strip_padding s =
     (if length s mod 4 = 0 then
        (if 2 \<le> length s \<and> drop (length s - 2) s = ''==''
           then take (length s - 2) s
         else if 1 \<le> length s \<and> drop (length s - 1) s = ''=''
           then take (length s - 1) s
         else s)
      else s)"

fun b64_bytes :: "nat list \<Rightarrow> string" where
  "b64_bytes (a # b # c # d # rest) =
     (let n = a * 262144 + b * 4096 + c * 64 + d in
      char_of (n div 65536) # char_of (n div 256 mod 256) # char_of (n mod 256)
        # b64_bytes rest)"
| "b64_bytes [a, b, c] =
     (let n = a * 262144 + b * 4096 + c * 64 in
      [char_of (n div 65536), char_of (n div 256 mod 256)])"
| "b64_bytes [a, b] = [char_of ((a * 262144 + b * 4096) div 65536)]"
| "b64_bytes rest = []"

definition atob :: "string \<Rightarrow> js_error + string" where
  "atob s =
     (let d = strip_padding (filter (\<lambda>c. \<not> ascii_whitespace c) s) in
      if length d mod 4 = 1 then Inl InvalidCharacterError
      else if \<exists>c \<in> set d. b64_value c = None then Inl InvalidCharacterError
      else Inr (b64_bytes (map (\<lambda>c. the (b64_value c)) d)))"

section \<open>The platform\<close>

text \<open>
  The worker runs on a platform whose interfaces are not part of the program:
  \<^verbatim>\<open>JSON.parse\<close>, \<^verbatim>\<open>fetch\<close>, \<^verbatim>\<open>Response.json\<close>, \<^verbatim>\<open>crypto.subtle\<close> and \<^verbatim>\<open>Date.now\<close>.
  They are parameters of the model, collected in one record that stands for the
  platform during one call; every result below holds for every such record.
  \<^item> \<open>JSON_parse\<close> is \<^verbatim>\<open>JSON.parse\<close> on a string.
  \<^item> \<open>fetch\<close> is \<^verbatim>\<open>fetch(input)\<close> with one argument: it rejects, or resolves to a
    response whatever its status is.
  \<^item> \<open>response_json\<close> is \<^verbatim>\<open>r.json()\<close>, a function of the body of the response: it
    rejects when the body is not JSON.
  \<^item> \<open>importKey\<close> and \<open>verify\<close> are those of \<^verbatim>\<open>crypto.subtle\<close>; \<open>'k\<close> is the type of
    the imported keys.
  \<^item> \<open>ToNumber_object\<close> is the engine's conversion to a number of a string, an array or
    an object (the cases of \<^verbatim>\<open>ToNumber\<close> that need the numeric-literal grammar or
    \<^verbatim>\<open>ToPrimitive\<close>).
  \<^item> \<open>multiply\<close> is the engine's product of two finite doubles that are not both
    integers: the exact product rounded to a double.
  \<^item> \<open>now_getJWKS\<close> is the value of \<^verbatim>\<open>Date.now()\<close> at line 14 and \<open>now_claims\<close> its
    value at line 62, in milliseconds.
  \<^item> \<open>exception_message\<close> is the \<^verbatim>\<open>message\<close> of an exception the platform raised.
  \<^item> \<open>fetch_backend\<close> is the forwarding of lines 88 to 92.
\<close>

record http_response =
  status :: nat
  body :: string

record import_algorithm =
  name :: string
  hash :: string

record request =
  authorization :: "string option"
  pathname :: string
  http_method :: string
  request_body :: string

record 'k host =
  JSON_parse :: "string \<Rightarrow> js_error + json"
  fetch :: "jsval \<Rightarrow> js_error + http_response"
  response_json :: "string \<Rightarrow> js_error + json"
  importKey :: "string \<Rightarrow> jsval \<Rightarrow> import_algorithm \<Rightarrow> bool \<Rightarrow> string list \<Rightarrow> js_error + 'k"
  verify :: "string \<Rightarrow> 'k \<Rightarrow> string \<Rightarrow> string \<Rightarrow> js_error + bool"
  ToNumber_object :: "json \<Rightarrow> jsnum"
  multiply :: "rat \<Rightarrow> rat \<Rightarrow> jsnum"
  now_getJWKS :: int
  now_claims :: int
  exception_message :: "js_error \<Rightarrow> string"
  fetch_backend :: "string \<Rightarrow> request \<Rightarrow> js_error + http_response"

text \<open>\<^verbatim>\<open>ToNumber\<close>, as the operator \<^verbatim>\<open>*\<close> applies it to its operand.\<close>

fun ToNumber :: "'k host \<Rightarrow> jsval \<Rightarrow> jsnum" where
  "ToNumber h Undefined = NaN"
| "ToNumber h Function = NaN"
| "ToNumber h (Val JNull) = Num 0"
| "ToNumber h (Val (JBool b)) = Num (if b then 1 else 0)"
| "ToNumber h (Val (JNum r)) = Num r"
| "ToNumber h (Val v) = ToNumber_object h v"

text \<open>
  \<^verbatim>\<open>a * b\<close> on numbers: \<^verbatim>\<open>NaN\<close> is contagious, zero times an infinity is \<^verbatim>\<open>NaN\<close>, the
  sign of an infinite product is the product of the signs. The product of two finite
  numbers is a rounded one. When both are integers the model keeps the exact product:
  the engine's product is its rounding to the nearest double, rounding is monotone, and
  the clock values of \<^verbatim>\<open>Date.now()\<close> are integers that are doubles, so that the
  comparison of line 62 with the clock has the same outcome on both. Any other product
  is left to the engine.
\<close>

definition is_integer :: "rat \<Rightarrow> bool" where
  "is_integer r \<longleftrightarrow> of_int \<lfloor>r\<rfloor> = r"

fun js_sign :: "jsnum \<Rightarrow> int" where
  "js_sign (Num r) = (if r < 0 then -1 else if r = 0 then 0 else 1)"
| "js_sign NaN = 0"
| "js_sign PosInf = 1"
| "js_sign NegInf = -1"

fun js_mul :: "'k host \<Rightarrow> jsnum \<Rightarrow> jsnum \<Rightarrow> jsnum" where
  "js_mul h NaN b = NaN"
| "js_mul h a NaN = NaN"
| "js_mul h (Num x) (Num y) =
     (if is_integer x \<and> is_integer y then Num (x * y) else multiply h x y)"
| "js_mul h a b =
     (if js_sign a * js_sign b = 0 then NaN
      else if js_sign a * js_sign b < 0 then NegInf else PosInf)"

section \<open>The key cache: \<^verbatim>\<open>getJWKS\<close>\<close>

definition OIDC_ISSUER :: string where
  "OIDC_ISSUER = ''https://integrator-2817162.okta.com/oauth2/default''"

definition API_BACKEND :: string where
  "API_BACKEND = ''https://api.internal.example.com''"

text \<open>
  The module's two variables (lines 9 and 10). The third field is not in the program: it
  records, in order, the argument of every \<^verbatim>\<open>fetch\<close> that \<^verbatim>\<open>getJWKS\<close> has issued, so that
  the calls of the key source can be counted.
\<close>

record worker =
  jwksCache :: json
  jwksFetchedAt :: int
  requests :: "jsval list"

definition initial_worker :: worker where
  "initial_worker = \<lparr>jwksCache = JNull, jwksFetchedAt = 0, requests = []\<rparr>"

definition oidcConfigUrl :: string where
  "oidcConfigUrl = OIDC_ISSUER @ ''/.well-known/openid-configuration''"

text \<open>\<^verbatim>\<open>fetch(url).then(r => r.json())\<close>: the status of the response is not read.\<close>

definition fetch_json :: "'k host \<Rightarrow> jsval \<Rightarrow> js_error + json" where
  "fetch_json h url =
     (case fetch h url of
        Inl e \<Rightarrow> Inl e
      | Inr r \<Rightarrow> response_json h (body r))"

text \<open>
  Lines 12 to 27, run without another call in between. A rejected promise is an
  exception at the \<^verbatim>\<open>await\<close>, and leaves the function there.
\<close>

definition getJWKS :: "'k host \<Rightarrow> worker \<Rightarrow> (js_error + json) \<times> worker" where
  "getJWKS h w =
     (let now = now_getJWKS h in
      if truthy (Val (jwksCache w)) \<and> now - jwksFetchedAt w < 10 * 60 * 1000
      then (Inr (jwksCache w), w)
      else
        let w1 = w\<lparr>requests := requests w @ [Val (JStr oidcConfigUrl)]\<rparr> in
        case fetch_json h (Val (JStr oidcConfigUrl)) of
          Inl e \<Rightarrow> (Inl e, w1)
        | Inr cfg \<Rightarrow>
            (case get_prop cfg ''jwks_uri'' of
               Inl e \<Rightarrow> (Inl e, w1)
             | Inr jwksUri \<Rightarrow>
                 let w2 = w1\<lparr>requests := requests w1 @ [jwksUri]\<rparr> in
                 (case fetch_json h jwksUri of
                    Inl e \<Rightarrow> (Inl e, w2)
                  | Inr jwks \<Rightarrow>
                      (Inr jwks, w2\<lparr>jwksCache := jwks, jwksFetchedAt := now\<rparr>))))"

section \<open>Token validation: \<^verbatim>\<open>validateJWT\<close>\<close>

text \<open>
  The function is modelled in the four stages that its comments mark, composed in
  \<open>validateJWT\<close> below. Lines 30 to 35: the token is split and its first two segments
  are decoded and parsed. The string that \<^verbatim>\<open>atob\<close> returns is handed to \<^verbatim>\<open>JSON.parse\<close>
  as it is.
\<close>

definition parseJWT ::
  "'k host \<Rightarrow> string \<Rightarrow> js_error + (json \<times> json \<times> string \<times> string \<times> string)" where
  "parseJWT h token =
     (let parts = split_char CHR ''.'' token in
      if length parts \<noteq> 3 then Inl (Error ''Invalid JWT format'')
      else
        let headerB64 = parts ! 0; payloadB64 = parts ! 1; signatureB64 = parts ! 2 in
        case atob headerB64 of
          Inl e \<Rightarrow> Inl e
        | Inr hs \<Rightarrow>
        (case JSON_parse h hs of
          Inl e \<Rightarrow> Inl e
        | Inr header \<Rightarrow>
        (case atob payloadB64 of
          Inl e \<Rightarrow> Inl e
        | Inr ps \<Rightarrow>
        (case JSON_parse h ps of
          Inl e \<Rightarrow> Inl e
        | Inr payload \<Rightarrow>
            Inr (header, payload, headerB64, payloadB64, signatureB64)))))"

text \<open>
  \<^verbatim>\<open>keys.find(k => k.kid === header.kid)\<close> on the elements of an array: the first element
  for which the test is true, or \<^verbatim>\<open>undefined\<close>. The test reads \<^verbatim>\<open>k.kid\<close>, then
  \<^verbatim>\<open>header.kid\<close>, for each element it visits, and either read raises on \<^verbatim>\<open>null\<close>.
\<close>

fun find_jwk :: "json list \<Rightarrow> json \<Rightarrow> js_error + jsval" where
  "find_jwk [] header = Inr Undefined"
| "find_jwk (k # ks) header =
     (case get_prop k ''kid'' of
        Inl e \<Rightarrow> Inl e
      | Inr a \<Rightarrow>
     (case get_prop header ''kid'' of
        Inl e \<Rightarrow> Inl e
      | Inr b \<Rightarrow> if strict_eq a b then Inr (Val k) else find_jwk ks header))"

definition RS256 :: import_algorithm where
  "RS256 = \<lparr>name = ''RSASSA-PKCS1-v1_5'', hash = ''SHA-256''\<rparr>"

text \<open>
  Lines 39 to 58. \<^verbatim>\<open>jwks.keys.find\<close> is callable only when \<^verbatim>\<open>jwks.keys\<close> is an array:
  on \<^verbatim>\<open>undefined\<close> and \<^verbatim>\<open>null\<close> the read of \<^verbatim>\<open>find\<close> raises a \<^verbatim>\<open>TypeError\<close>, and on
  any other value \<^verbatim>\<open>find\<close> is not a function. The signing input is the text
  \<^verbatim>\<open>headerB64.payloadB64\<close>, whose characters are ASCII because \<^verbatim>\<open>atob\<close> has accepted both
  segments, so that its UTF-8 encoding is the text itself; the signature is the bytes of
  \<^verbatim>\<open>atob(signatureB64)\<close>.
\<close>

definition verifySignature ::
  "'k host \<Rightarrow> json \<Rightarrow> json \<Rightarrow> string \<Rightarrow> string \<Rightarrow> string \<Rightarrow> js_error + unit" where
  "verifySignature h jwks header headerB64 payloadB64 signatureB64 =
     (case get_prop jwks ''keys'' of
        Inl e \<Rightarrow> Inl e
      | Inr (Val (JArr keys)) \<Rightarrow>
          (case find_jwk keys header of
             Inl e \<Rightarrow> Inl e
           | Inr jwk \<Rightarrow>
               if \<not> truthy jwk then Inl (Error ''No matching JWK'')
               else
                 (case importKey h ''jwk'' jwk RS256 False [''verify''] of
                    Inl e \<Rightarrow> Inl e
                  | Inr key \<Rightarrow>
                      let data = headerB64 @ ''.'' @ payloadB64 in
                      (case atob signatureB64 of
                         Inl e \<Rightarrow> Inl e
                       | Inr signature \<Rightarrow>
                           (case verify h ''RSASSA-PKCS1-v1_5'' key signature data of
                              Inl e \<Rightarrow> Inl e
                            | Inr valid \<Rightarrow>
                                if \<not> valid then Inl (Error ''Invalid signature'')
                                else Inr ()))))
      | Inr other \<Rightarrow> Inl TypeError)"

text \<open>Lines 60 to 64: the issuer, then the expiry; the payload is returned as it is.\<close>

definition verifyClaims :: "'k host \<Rightarrow> json \<Rightarrow> js_error + json" where
  "verifyClaims h payload =
     (case get_prop payload ''iss'' of
        Inl e \<Rightarrow> Inl e
      | Inr iss \<Rightarrow>
          if \<not> strict_eq iss (Val (JStr OIDC_ISSUER)) then Inl (Error ''Invalid issuer'')
          else
            (case get_prop payload ''exp'' of
               Inl e \<Rightarrow> Inl e
             | Inr exp' \<Rightarrow>
                 if js_lt (js_mul h (ToNumber h exp') (Num 1000)) (Num (of_int (now_claims h)))
                 then Inl (Error ''Token expired'')
                 else Inr payload))"

text \<open>Lines 29 to 65. Only \<open>getJWKS\<close> touches the module's variables.\<close>

definition validateJWT :: "'k host \<Rightarrow> worker \<Rightarrow> string \<Rightarrow> (js_error + json) \<times> worker" where
  "validateJWT h w token =
     (case parseJWT h token of
        Inl e \<Rightarrow> (Inl e, w)
      | Inr (header, payload, headerB64, payloadB64, signatureB64) \<Rightarrow>
          (case getJWKS h w of
             (Inl e, w') \<Rightarrow> (Inl e, w')
           | (Inr jwks, w') \<Rightarrow>
               (case verifySignature h jwks header headerB64 payloadB64 signatureB64 of
                  Inl e \<Rightarrow> (Inl e, w')
                | Inr u \<Rightarrow> (verifyClaims h payload, w'))))"

section \<open>The request handler\<close>

text \<open>
  Lines 68 to 98, the method \<^verbatim>\<open>fetch\<close> of the exported object. \<^verbatim>\<open>headers.get\<close> gives
  \<^verbatim>\<open>null\<close> or a string; every exception raised inside the \<^verbatim>\<open>try\<close> block ends in the
  \<^verbatim>\<open>catch\<close>, which answers 401 with the message of the exception. The path of the
  request's URL is a field of the request.
\<close>

definition message :: "'k host \<Rightarrow> js_error \<Rightarrow> string" where
  "message h err = (case err of Error m \<Rightarrow> m | other \<Rightarrow> exception_message h other)"

definition unauthorized :: "'k host \<Rightarrow> js_error \<Rightarrow> http_response" where
  "unauthorized h err = \<lparr>status = 401, body = ''Unauthorized: '' @ message h err\<rparr>"

definition handle_fetch :: "'k host \<Rightarrow> worker \<Rightarrow> request \<Rightarrow> http_response \<times> worker" where
  "handle_fetch h w req =
     (case authorization req of
        None \<Rightarrow> (\<lparr>status = 401, body = ''Missing Authorization header''\<rparr>, w)
      | Some auth \<Rightarrow>
          if auth = [] \<or> take 7 auth \<noteq> ''Bearer ''
          then (\<lparr>status = 401, body = ''Missing Authorization header''\<rparr>, w)
          else
            let token = drop 7 auth in
            (case validateJWT h w token of
               (Inl err, w') \<Rightarrow> (unauthorized h err, w')
             | (Inr claims, w') \<Rightarrow>
                 (case get_prop claims ''sub'' of
                    Inl err \<Rightarrow> (unauthorized h err, w')
                  | Inr sub \<Rightarrow>
                      if \<not> truthy sub
                      then (\<lparr>status = 403, body = ''Forbidden: Invalid token claims''\<rparr>, w')
                      else
                        (case fetch_backend h (API_BACKEND @ pathname req) req of
                           Inl err \<Rightarrow> (unauthorized h err, w')
                         | Inr backendResp \<Rightarrow> (backendResp, w')))))"

section \<open>Calls of \<^verbatim>\<open>getJWKS\<close> that overlap\<close>

text \<open>
  \<^verbatim>\<open>getJWKS\<close> is an \<^verbatim>\<open>async\<close> function with two \<^verbatim>\<open>await\<close>s. A call runs from its start to
  the first \<^verbatim>\<open>await\<close>, from there to the second, and from there to its end, each part in
  one turn of the event loop; between two parts, parts of other calls may run. The state
  of a call is the place where it waits, with its local \<^verbatim>\<open>now\<close> and the argument of the
  pending \<^verbatim>\<open>fetch\<close>. A call resumes with the clock (at its start) or with the outcome of
  \<^verbatim>\<open>fetch(...).then(r => r.json())\<close>.
\<close>

datatype call_state =
    Begin
  | AwaitConfig int
  | AwaitJWKS int jsval
  | Returned json
  | Threw js_error

datatype input = Clock int | Settled "js_error + json"

fun getJWKS_step :: "worker \<Rightarrow> call_state \<Rightarrow> input \<Rightarrow> worker \<times> call_state" where
  "getJWKS_step w Begin (Clock now) =
     (if truthy (Val (jwksCache w)) \<and> now - jwksFetchedAt w < 10 * 60 * 1000
      then (w, Returned (jwksCache w))
      else (w\<lparr>requests := requests w @ [Val (JStr oidcConfigUrl)]\<rparr>, AwaitConfig now))"
| "getJWKS_step w (AwaitConfig now) (Settled r) =
     (case r of
        Inl e \<Rightarrow> (w, Threw e)
      | Inr cfg \<Rightarrow>
          (case get_prop cfg ''jwks_uri'' of
             Inl e \<Rightarrow> (w, Threw e)
           | Inr jwksUri \<Rightarrow>
               (w\<lparr>requests := requests w @ [jwksUri]\<rparr>, AwaitJWKS now jwksUri)))"
| "getJWKS_step w (AwaitJWKS now jwksUri) (Settled r) =
     (case r of
        Inl e \<Rightarrow> (w, Threw e)
      | Inr jwks \<Rightarrow> (w\<lparr>jwksCache := jwks, jwksFetchedAt := now\<rparr>, Returned jwks))"
| "getJWKS_step w c x = (w, c)"

text \<open>
  Several calls share the worker: an event resumes the call of the given index with the
  given input, and a schedule is a list of events.
\<close>

fun deliver :: "worker \<times> call_state list \<Rightarrow> nat \<times> input \<Rightarrow> worker \<times> call_state list" where
  "deliver (w, calls) (i, x) =
     (if i < length calls
      then (case getJWKS_step w (calls ! i) x of (w', c) \<Rightarrow> (w', calls[i := c]))
      else (w, calls))"

definition run ::
  "worker \<Rightarrow> call_state list \<Rightarrow> (nat \<times> input) list \<Rightarrow> worker \<times> call_state list" where
  "run w calls events = foldl deliver (w, calls) events"

text \<open>What a call that is alone gets from the platform \<open>h\<close>, and its result.\<close>

fun platform_input :: "'k host \<Rightarrow> call_state \<Rightarrow> input" where
  "platform_input h (AwaitConfig now) = Settled (fetch_json h (Val (JStr oidcConfigUrl)))"
| "platform_input h (AwaitJWKS now jwksUri) = Settled (fetch_json h jwksUri)"
| "platform_input h c = Clock (now_getJWKS h)"

fun finished :: "call_state \<Rightarrow> bool" where
  "finished (Returned jwks) = True"
| "finished (Threw e) = True"
| "finished c = False"

fun run_alone :: "'k host \<Rightarrow> nat \<Rightarrow> worker \<times> call_state \<Rightarrow> worker \<times> call_state" where
  "run_alone h 0 (w, c) = (w, c)"
| "run_alone h (Suc n) (w, c) =
     (if finished c then (w, c)
      else run_alone h n (getJWKS_step w c (platform_input h c)))"

fun outcome :: "worker \<times> call_state \<Rightarrow> ((js_error + json) \<times> worker) option" where
  "outcome (w, Returned jwks) = Some (Inr jwks, w)"
| "outcome (w, Threw e) = Some (Inl e, w)"
| "outcome (w, c) = None"

section \<open>Notions used in the statements\<close>

text \<open>The test of line 15, for a clock value \<open>now\<close>.\<close>

definition cache_fresh :: "worker \<Rightarrow> int \<Rightarrow> bool" where
  "cache_fresh w now \<longleftrightarrow>
     truthy (Val (jwksCache w)) \<and> now - jwksFetchedAt w < 10 * 60 * 1000"

text \<open>
  The program has no error type: it tells its failures apart by the message of the
  \<^verbatim>\<open>Error\<close> it throws. The five messages of \<^verbatim>\<open>validateJWT\<close>, against the names that the
  specification gives to the failures of validation; the exceptions that the platform
  raises bear none of these names in the program.
\<close>

datatype AuthError =
    MalformedToken
  | KeySourceUnavailable
  | UnknownKey
  | InvalidSignature
  | IssuerMismatch
  | TokenExpired
  | MissingSubject

fun auth_error :: "js_error \<Rightarrow> AuthError option" where
  "auth_error (Error m) =
     (if m = ''Invalid JWT format'' then Some MalformedToken
      else if m = ''No matching JWK'' then Some UnknownKey
      else if m = ''Invalid signature'' then Some InvalidSignature
      else if m = ''Invalid issuer'' then Some IssuerMismatch
      else if m = ''Token expired'' then Some TokenExpired
      else None)"
| "auth_error e = None"

text \<open>An exception that some interface of the platform \<open>h\<close> raises.\<close>

definition platform_raises :: "'k host \<Rightarrow> js_error \<Rightarrow> bool" where
  "platform_raises h e \<longleftrightarrow>
     (\<exists>s. JSON_parse h s = Inl e) \<or>
     (\<exists>u. fetch h u = Inl e) \<or>
     (\<exists>b. response_json h b = Inl e) \<or>
     (\<exists>f jwk a x us. importKey h f jwk a x us = Inl e) \<or>
     (\<exists>a key s d. verify h a key s d = Inl e)"



text \<open>The platform \<open>h\<close> with the status of every response replaced by \<open>g\<close> of it.\<close>

definition with_status :: "(http_response \<Rightarrow> nat) \<Rightarrow> 'k host \<Rightarrow> 'k host" where
  "with_status g h =
     h\<lparr>fetch := \<lambda>u. case fetch h u of Inl e \<Rightarrow> Inl e | Inr r \<Rightarrow> Inr (r\<lparr>status := g r\<rparr>)\<rparr>"

section \<open>A sample platform and sample tokens\<close>

text \<open>
  Concrete data on which the statements below are evaluated: an issuer that publishes
  one RSA key \<^verbatim>\<open>k1\<close>, a platform that parses the JSON texts listed here, imports a key
  of type RSA, and accepts the signature bytes 1, 2, 3 on the signing inputs that the
  issuer has signed. The key type of this platform is the imported JWK itself.
\<close>

definition keys_url :: string where
  "keys_url = ''https://integrator-2817162.okta.com/oauth2/default/v1/keys''"

definition discovery_text :: string where
  \<open>discovery_text =
     ''{"jwks_uri":"https://integrator-2817162.okta.com/oauth2/default/v1/keys"}''\<close>

definition discovery_doc :: json where
  "discovery_doc = JObj [(''jwks_uri'', JStr keys_url)]"

definition jwks_text :: string where
  \<open>jwks_text = ''{"keys":[{"kid":"k1","kty":"RSA","e":"AQAB","n":"sXch"}]}''\<close>

definition jwk_k1 :: json where
  "jwk_k1 = JObj [(''kid'', JStr ''k1''), (''kty'', JStr ''RSA''), (''e'', JStr ''AQAB''),
                  (''n'', JStr ''sXch'')]"

definition jwks_doc :: json where
  "jwks_doc = JObj [(''keys'', JArr [jwk_k1])]"

definition header_k1_text :: string where
  \<open>header_k1_text = ''{"kid":"k1","alg":"RS256"}''\<close>

definition header_k1 :: json where
  "header_k1 = JObj [(''kid'', JStr ''k1''), (''alg'', JStr ''RS256'')]"

definition header_none_text :: string where
  \<open>header_none_text = ''{"kid":"k1","alg":"none"}''\<close>

definition header_none :: json where
  "header_none = JObj [(''kid'', JStr ''k1''), (''alg'', JStr ''none'')]"

definition header_nokid_text :: string where
  \<open>header_nokid_text = ''{"alg":"RS256"}''\<close>

definition header_nokid :: json where
  "header_nokid = JObj [(''alg'', JStr ''RS256'')]"

definition payload_u1_text :: string where
  \<open>payload_u1_text =
     ''{"iss":"https://integrator-2817162.okta.com/oauth2/default","sub":"u1","exp":1700000000}''\<close>

definition payload_u1 :: json where
  "payload_u1 = JObj [(''iss'', JStr ''https://integrator-2817162.okta.com/oauth2/default''),
                      (''sub'', JStr ''u1''), (''exp'', JNum 1700000000)]"

definition payload_noexp_text :: string where
  \<open>payload_noexp_text =
     ''{"iss":"https://integrator-2817162.okta.com/oauth2/default","sub":"u1"}''\<close>

definition payload_noexp :: json where
  "payload_noexp = JObj [(''iss'', JStr ''https://integrator-2817162.okta.com/oauth2/default''),
                         (''sub'', JStr ''u1'')]"

definition payload_nosub_text :: string where
  \<open>payload_nosub_text =
     ''{"iss":"https://integrator-2817162.okta.com/oauth2/default","exp":1700000000}''\<close>

definition payload_nosub :: json where
  "payload_nosub = JObj [(''iss'', JStr ''https://integrator-2817162.okta.com/oauth2/default''),
                         (''exp'', JNum 1700000000)]"

definition sample_documents :: "(string \<times> json) list" where
  "sample_documents =
     [(discovery_text, discovery_doc), (jwks_text, jwks_doc),
      (header_k1_text, header_k1), (header_none_text, header_none),
      (header_nokid_text, header_nokid), (payload_u1_text, payload_u1),
      (payload_noexp_text, payload_noexp), (payload_nosub_text, payload_nosub)]"

text \<open>The segments of the sample tokens: the base64 of the texts above.\<close>

definition seg_header_k1 :: string where
  "seg_header_k1 = ''eyJraWQiOiJrMSIsImFsZyI6IlJTMjU2In0''"

definition seg_header_none :: string where
  "seg_header_none = ''eyJraWQiOiJrMSIsImFsZyI6Im5vbmUifQ''"

definition seg_header_nokid :: string where
  "seg_header_nokid = ''eyJhbGciOiJSUzI1NiJ9''"

definition seg_payload_u1 :: string where
  "seg_payload_u1 = ''eyJpc3MiOiJodHRwczovL2ludGVncmF0b3ItMjgxNzE2Mi5va3RhLmNvbS9vYXV0aDIvZGVmYXVsdCIsInN1YiI6InUxIiwiZXhwIjoxNzAwMDAwMDAwfQ''"

definition seg_payload_noexp :: string where
  "seg_payload_noexp = ''eyJpc3MiOiJodHRwczovL2ludGVncmF0b3ItMjgxNzE2Mi5va3RhLmNvbS9vYXV0aDIvZGVmYXVsdCIsInN1YiI6InUxIn0''"

definition seg_payload_nosub :: string where
  "seg_payload_nosub = ''eyJpc3MiOiJodHRwczovL2ludGVncmF0b3ItMjgxNzE2Mi5va3RhLmNvbS9vYXV0aDIvZGVmYXVsdCIsImV4cCI6MTcwMDAwMDAwMH0''"

definition sample_signature :: string where
  "sample_signature = [CHR 0x01, CHR 0x02, CHR 0x03]"

definition sample_signed :: "string list" where
  "sample_signed =
     [seg_header_k1 @ ''.'' @ seg_payload_u1,
      seg_header_k1 @ ''.'' @ seg_payload_noexp,
      seg_header_k1 @ ''.'' @ seg_payload_nosub,
      seg_header_none @ ''.'' @ seg_payload_u1]"

definition sample_fetch :: "nat \<Rightarrow> jsval \<Rightarrow> js_error + http_response" where
  "sample_fetch keys_status u =
     (if u = Val (JStr oidcConfigUrl) then Inr \<lparr>status = 200, body = discovery_text\<rparr>
      else if u = Val (JStr keys_url) then Inr \<lparr>status = keys_status, body = jwks_text\<rparr>
      else Inl TypeError)"

definition sample_parse :: "string \<Rightarrow> js_error + json" where
  "sample_parse s = (case map_of sample_documents s of None \<Rightarrow> Inl SyntaxError | Some v \<Rightarrow> Inr v)"

definition sample_importKey ::
  "string \<Rightarrow> jsval \<Rightarrow> import_algorithm \<Rightarrow> bool \<Rightarrow> string list \<Rightarrow> js_error + jsval" where
  "sample_importKey format jwk algorithm extractable usages =
     (case get_prop (case jwk of Val v \<Rightarrow> v | other \<Rightarrow> JNull) ''kty'' of
        Inl e \<Rightarrow> Inl TypeError
      | Inr kty \<Rightarrow>
          if strict_eq kty (Val (JStr ''RSA'')) then Inr jwk
          else Inl (HostException ''DataError''))"

definition sample_verify :: "string \<Rightarrow> jsval \<Rightarrow> string \<Rightarrow> string \<Rightarrow> js_error + bool" where
  "sample_verify algorithm key signature data =
     Inr (signature = sample_signature \<and> data \<in> set sample_signed)"

definition sample_platform :: "nat \<Rightarrow> int \<Rightarrow> jsval host" where
  "sample_platform keys_status t =
     \<lparr>JSON_parse = sample_parse,
      fetch = sample_fetch keys_status,
      response_json = sample_parse,
      importKey = sample_importKey,
      verify = sample_verify,
      ToNumber_object = (\<lambda>v. NaN),
      multiply = (\<lambda>x y. NaN),
      now_getJWKS = 1699999000000,
      now_claims = t,
      exception_message = (\<lambda>e. ''exception''),
      fetch_backend = (\<lambda>url req. Inr \<lparr>status = 200, body = ''backend''\<rparr>)\<rparr>"

text \<open>
  The sample platform when every endpoint answers 200 and the claims are checked half a
  second after \<^verbatim>\<open>getJWKS\<close> has read the clock; the sample tokens expire 1000 s later.
\<close>

definition sample_host :: "jsval host" where
  "sample_host = sample_platform 200 1699999000500"

definition token_u1 :: string where
  "token_u1 = seg_header_k1 @ ''.'' @ seg_payload_u1 @ ''.'' @ ''AQID''"

definition token_noexp :: string where
  "token_noexp = seg_header_k1 @ ''.'' @ seg_payload_noexp @ ''.'' @ ''AQID''"

definition token_nosub :: string where
  "token_nosub = seg_header_k1 @ ''.'' @ seg_payload_nosub @ ''.'' @ ''AQID''"

definition token_none :: string where
  "token_none = seg_header_none @ ''.'' @ seg_payload_u1 @ ''.'' @ ''AQID''"

definition token_nokid :: string where
  "token_nokid = seg_header_nokid @ ''.'' @ seg_payload_u1 @ ''.'' @ ''AQID''"

definition token_url :: string where
  "token_url = seg_header_k1 @ ''.'' @ seg_payload_u1 @ ''.'' @ ''__79''"



text \<open>A request that bears the given token.\<close>

definition sample_request :: "string \<Rightarrow> request" where
  "sample_request token =
     \<lparr>authorization = Some (''Bearer '' @ token), pathname = ''/orders'',
      http_method = ''GET'', request_body = []\<rparr>"

text \<open>A platform whose network is down, and a worker whose cache entry is stale.\<close>

definition offline_host :: "jsval host" where
  "offline_host = sample_host\<lparr>fetch := \<lambda>u. Inl (HostException ''NetworkError'')\<rparr>"

definition stale_worker :: worker where
  "stale_worker = \<lparr>jwksCache = jwks_doc, jwksFetchedAt = 0, requests = []\<rparr>"

text \<open>The worker after a call on the sample platform has filled the empty cache.\<close>

definition filled_worker :: worker where
  "filled_worker =
     \<lparr>jwksCache = jwks_doc, jwksFetchedAt = 1699999000000,
      requests = [Val (JStr oidcConfigUrl), Val (JStr keys_url)]\<rparr>"

section \<open>Evaluation of the samples\<close>

lemmas atob_eval =
  atob_def strip_padding_def ascii_whitespace_def b64_value_def char_of_def bit_Suc_0_iff

lemma atob_header_k1: "atob seg_header_k1 = Inr header_k1_text"
  by (simp add: seg_header_k1_def header_k1_text_def atob_eval)

lemma atob_header_none: "atob seg_header_none = Inr header_none_text"
  by (simp add: seg_header_none_def header_none_text_def atob_eval)

lemma atob_header_nokid: "atob seg_header_nokid = Inr header_nokid_text"
  by (simp add: seg_header_nokid_def header_nokid_text_def atob_eval)

lemma atob_payload_u1: "atob seg_payload_u1 = Inr payload_u1_text"
  by (simp add: seg_payload_u1_def payload_u1_text_def atob_eval)

lemma atob_payload_noexp: "atob seg_payload_noexp = Inr payload_noexp_text"
  by (simp add: seg_payload_noexp_def payload_noexp_text_def atob_eval)

lemma atob_payload_nosub: "atob seg_payload_nosub = Inr payload_nosub_text"
  by (simp add: seg_payload_nosub_def payload_nosub_text_def atob_eval)

lemma atob_signature: "atob ''AQID'' = Inr sample_signature"
  by (simp add: sample_signature_def atob_eval)

lemmas sample_texts =
  discovery_text_def jwks_text_def header_k1_text_def header_none_text_def
  header_nokid_text_def payload_u1_text_def payload_noexp_text_def payload_nosub_text_def

lemma sample_parse_discovery: "sample_parse discovery_text = Inr discovery_doc"
  by (simp add: sample_parse_def sample_documents_def)

lemma sample_parse_jwks: "sample_parse jwks_text = Inr jwks_doc"
  by (simp add: sample_parse_def sample_documents_def sample_texts)

lemma sample_parse_header_k1: "sample_parse header_k1_text = Inr header_k1"
  by (simp add: sample_parse_def sample_documents_def sample_texts)

lemma sample_parse_header_none: "sample_parse header_none_text = Inr header_none"
  by (simp add: sample_parse_def sample_documents_def sample_texts)

lemma sample_parse_header_nokid: "sample_parse header_nokid_text = Inr header_nokid"
  by (simp add: sample_parse_def sample_documents_def sample_texts)

lemma sample_parse_payload_u1: "sample_parse payload_u1_text = Inr payload_u1"
  by (simp add: sample_parse_def sample_documents_def sample_texts)

lemma sample_parse_payload_noexp: "sample_parse payload_noexp_text = Inr payload_noexp"
  by (simp add: sample_parse_def sample_documents_def sample_texts)

lemma sample_parse_payload_nosub: "sample_parse payload_nosub_text = Inr payload_nosub"
  by (simp add: sample_parse_def sample_documents_def sample_texts)

lemmas sample_parses =
  sample_parse_discovery sample_parse_jwks sample_parse_header_k1 sample_parse_header_none
  sample_parse_header_nokid sample_parse_payload_u1 sample_parse_payload_noexp
  sample_parse_payload_nosub

lemma keys_url_not_config: "keys_url \<noteq> oidcConfigUrl"
  by (simp add: keys_url_def oidcConfigUrl_def OIDC_ISSUER_def)

lemma sample_fetch_json_config:
  "fetch_json (sample_platform n t) (Val (JStr oidcConfigUrl)) = Inr discovery_doc"
  by (simp add: fetch_json_def sample_platform_def sample_fetch_def sample_parses)

lemma sample_fetch_json_keys:
  "fetch_json (sample_platform n t) (Val (JStr keys_url)) = Inr jwks_doc"
  by (simp add: fetch_json_def sample_platform_def sample_fetch_def sample_parses
      keys_url_not_config)

section \<open>The key cache\<close>

lemma getJWKS_hit:
  "cache_fresh w (now_getJWKS h) \<Longrightarrow> getJWKS h w = (Inr (jwksCache w), w)"
  by (simp add: getJWKS_def cache_fresh_def)

lemma getJWKS_miss_requests:
  assumes "\<not> cache_fresh w (now_getJWKS h)"
  shows "\<exists>rest. requests (snd (getJWKS h w)) = requests w @ Val (JStr oidcConfigUrl) # rest"
  using assms
  by (auto simp: getJWKS_def cache_fresh_def Let_def split: sum.splits)

lemma getJWKS_error_miss:
  "getJWKS h w = (Inl e, w') \<Longrightarrow> \<not> cache_fresh w (now_getJWKS h)"
  by (auto simp: getJWKS_def cache_fresh_def Let_def split: if_splits)

lemma getJWKS_error_cache:
  "getJWKS h w = (Inl e, w') \<Longrightarrow>
     jwksCache w' = jwksCache w \<and> jwksFetchedAt w' = jwksFetchedAt w"
  by (auto simp: getJWKS_def Let_def split: if_splits sum.splits)

lemma getJWKS_sample_refresh:
  assumes "\<not> cache_fresh w 1699999000000"
  shows "getJWKS (sample_platform n t) w =
           (Inr jwks_doc,
            w\<lparr>requests := requests w @ [Val (JStr oidcConfigUrl), Val (JStr keys_url)],
              jwksCache := jwks_doc, jwksFetchedAt := 1699999000000\<rparr>)"
proof -
  have now: "now_getJWKS (sample_platform n t) = 1699999000000"
    by (simp add: sample_platform_def)
  have uri: "get_prop discovery_doc ''jwks_uri'' = Inr (Val (JStr keys_url))"
    by (simp add: discovery_doc_def)
  have "(truthy (Val (jwksCache w)) \<and> 1699999000000 - jwksFetchedAt w < 10 * 60 * 1000) = False"
    using assms by (simp add: cache_fresh_def)
  then show ?thesis
    unfolding getJWKS_def Let_def now
    by (simp only: if_False) (simp add: sample_fetch_json_config sample_fetch_json_keys uri)
qed

text \<open>
  C9. When the fetch of the key source fails (the network is down, a body is not JSON, or
  the discovery document is \<^verbatim>\<open>null\<close>), \<^verbatim>\<open>getJWKS\<close> throws and the cache is as before:
  \<^verbatim>\<open>jwksCache\<close> and \<^verbatim>\<open>jwksFetchedAt\<close> keep their values; a call that follows, at the same
  clock value or later, finds the cache as stale as before and fetches the discovery
  document again.
\<close>

theorem getJWKS_failure_keeps_cache:
  assumes "getJWKS h w = (Inl e, w')"
  shows "jwksCache w' = jwksCache w \<and> jwksFetchedAt w' = jwksFetchedAt w \<and>
         (\<forall>h' :: 'k host. now_getJWKS h \<le> now_getJWKS h' \<longrightarrow>
            (\<exists>rest. requests (snd (getJWKS h' w')) =
                      requests w' @ Val (JStr oidcConfigUrl) # rest))"
proof -
  have same: "jwksCache w' = jwksCache w \<and> jwksFetchedAt w' = jwksFetchedAt w"
    using assms by (rule getJWKS_error_cache)
  have stale: "\<not> cache_fresh w (now_getJWKS h)"
    using assms by (rule getJWKS_error_miss)
  have "\<exists>rest. requests (snd (getJWKS h' w')) = requests w' @ Val (JStr oidcConfigUrl) # rest"
    if later: "now_getJWKS h \<le> now_getJWKS h'" for h' :: "'k host"
  proof -
    have "\<not> cache_fresh w' (now_getJWKS h')"
      using stale same later by (auto simp: cache_fresh_def)
    then show ?thesis by (rule getJWKS_miss_requests)
  qed
  with same show ?thesis by blast
qed

theorem getJWKS_failure_keeps_cache_witness:
  "getJWKS offline_host stale_worker =
     (Inl (HostException ''NetworkError''),
      stale_worker\<lparr>requests := [Val (JStr oidcConfigUrl)]\<rparr>) \<and>
   jwksCache (stale_worker\<lparr>requests := [Val (JStr oidcConfigUrl)]\<rparr>) = jwks_doc \<and>
   jwksFetchedAt (stale_worker\<lparr>requests := [Val (JStr oidcConfigUrl)]\<rparr>) = 0 \<and>
   now_getJWKS offline_host \<le> now_getJWKS sample_host \<and>
   (\<exists>rest. requests (snd (getJWKS sample_host
                             (stale_worker\<lparr>requests := [Val (JStr oidcConfigUrl)]\<rparr>))) =
             [Val (JStr oidcConfigUrl)] @ Val (JStr oidcConfigUrl) # rest)"
proof -
  have fails: "getJWKS offline_host stale_worker =
     (Inl (HostException ''NetworkError''),
      stale_worker\<lparr>requests := [Val (JStr oidcConfigUrl)]\<rparr>)"
    by (simp add: getJWKS_def offline_host_def sample_host_def sample_platform_def
        stale_worker_def fetch_json_def jwks_doc_def)
  have later: "now_getJWKS offline_host \<le> now_getJWKS sample_host"
    by (simp add: offline_host_def)
  from getJWKS_failure_keeps_cache [OF fails] later
  have "jwksCache (stale_worker\<lparr>requests := [Val (JStr oidcConfigUrl)]\<rparr>) = jwksCache stale_worker"
    and "jwksFetchedAt (stale_worker\<lparr>requests := [Val (JStr oidcConfigUrl)]\<rparr>) =
           jwksFetchedAt stale_worker"
    and "\<exists>rest. requests (snd (getJWKS sample_host
                             (stale_worker\<lparr>requests := [Val (JStr oidcConfigUrl)]\<rparr>))) =
             requests (stale_worker\<lparr>requests := [Val (JStr oidcConfigUrl)]\<rparr>) @
               Val (JStr oidcConfigUrl) # rest"
    by blast+
  with fails later show ?thesis
    by (simp add: stale_worker_def)
qed


section \<open>The sample tokens\<close>

lemma split_char_none: "c \<notin> set s \<Longrightarrow> split_char c s = [s]"
  by (induction s) auto

lemma split_char_append:
  "c \<notin> set a \<Longrightarrow> split_char c (a @ c # rest) = a # split_char c rest"
  by (induction a) auto

lemma split_three:
  assumes "CHR ''.'' \<notin> set a" and "CHR ''.'' \<notin> set b" and "CHR ''.'' \<notin> set c"
  shows "split_char CHR ''.'' (a @ ''.'' @ b @ ''.'' @ c) = [a, b, c]"
  using assms by (simp add: split_char_append split_char_none)

lemmas sample_segments =
  seg_header_k1_def seg_header_none_def seg_header_nokid_def seg_payload_u1_def
  seg_payload_noexp_def seg_payload_nosub_def

lemma split_token_u1:
  "split_char CHR ''.'' token_u1 = [seg_header_k1, seg_payload_u1, ''AQID'']"
  unfolding token_u1_def by (rule split_three) (simp_all add: sample_segments)

lemma split_token_noexp:
  "split_char CHR ''.'' token_noexp = [seg_header_k1, seg_payload_noexp, ''AQID'']"
  unfolding token_noexp_def by (rule split_three) (simp_all add: sample_segments)

lemma split_token_nosub:
  "split_char CHR ''.'' token_nosub = [seg_header_k1, seg_payload_nosub, ''AQID'']"
  unfolding token_nosub_def by (rule split_three) (simp_all add: sample_segments)

lemma split_token_none:
  "split_char CHR ''.'' token_none = [seg_header_none, seg_payload_u1, ''AQID'']"
  unfolding token_none_def by (rule split_three) (simp_all add: sample_segments)

lemma split_token_nokid:
  "split_char CHR ''.'' token_nokid = [seg_header_nokid, seg_payload_u1, ''AQID'']"
  unfolding token_nokid_def by (rule split_three) (simp_all add: sample_segments)

lemma split_token_url:
  "split_char CHR ''.'' token_url = [seg_header_k1, seg_payload_u1, ''__79'']"
  unfolding token_url_def by (rule split_three) (simp_all add: sample_segments)

lemma sample_JSON_parse: "JSON_parse (sample_platform n t) = sample_parse"
  by (simp add: sample_platform_def)

lemmas sample_atobs =
  atob_header_k1 atob_header_none atob_header_nokid atob_payload_u1 atob_payload_noexp
  atob_payload_nosub atob_signature

lemma parse_token_u1:
  "parseJWT (sample_platform n t) token_u1 =
     Inr (header_k1, payload_u1, seg_header_k1, seg_payload_u1, ''AQID'')"
  by (simp add: parseJWT_def split_token_u1 sample_atobs sample_JSON_parse sample_parses)

lemma parse_token_noexp:
  "parseJWT (sample_platform n t) token_noexp =
     Inr (header_k1, payload_noexp, seg_header_k1, seg_payload_noexp, ''AQID'')"
  by (simp add: parseJWT_def split_token_noexp sample_atobs sample_JSON_parse sample_parses)

lemma parse_token_nosub:
  "parseJWT (sample_platform n t) token_nosub =
     Inr (header_k1, payload_nosub, seg_header_k1, seg_payload_nosub, ''AQID'')"
  by (simp add: parseJWT_def split_token_nosub sample_atobs sample_JSON_parse sample_parses)

lemma parse_token_none:
  "parseJWT (sample_platform n t) token_none =
     Inr (header_none, payload_u1, seg_header_none, seg_payload_u1, ''AQID'')"
  by (simp add: parseJWT_def split_token_none sample_atobs sample_JSON_parse sample_parses)

lemma parse_token_nokid:
  "parseJWT (sample_platform n t) token_nokid =
     Inr (header_nokid, payload_u1, seg_header_nokid, seg_payload_u1, ''AQID'')"
  by (simp add: parseJWT_def split_token_nokid sample_atobs sample_JSON_parse sample_parses)

lemma parse_token_url:
  "parseJWT (sample_platform n t) token_url =
     Inr (header_k1, payload_u1, seg_header_k1, seg_payload_u1, ''__79'')"
  by (simp add: parseJWT_def split_token_url sample_atobs sample_JSON_parse sample_parses)

lemma initial_not_fresh: "\<not> cache_fresh initial_worker now"
  by (simp add: cache_fresh_def initial_worker_def)

lemma getJWKS_sample_initial:
  "getJWKS (sample_platform n t) initial_worker =
     (Inr jwks_doc, filled_worker)"
  using getJWKS_sample_refresh [OF initial_not_fresh, of n t]
  by (simp add: initial_worker_def filled_worker_def)

lemma find_jwk_sample_k1:
  "get_prop header ''kid'' = Inr (Val (JStr ''k1'')) \<Longrightarrow>
     find_jwk [jwk_k1] header = Inr (Val jwk_k1)"
  by (simp add: jwk_k1_def)

lemma verifySignature_sample:
  assumes "get_prop header ''kid'' = Inr (Val (JStr ''k1''))"
    and "headerB64 @ ''.'' @ payloadB64 \<in> set sample_signed"
  shows "verifySignature (sample_platform n t) jwks_doc header headerB64 payloadB64 ''AQID''
           = Inr ()"
proof -
  have keys: "get_prop jwks_doc ''keys'' = Inr (Val (JArr [jwk_k1]))"
    by (simp add: jwks_doc_def)
  have import: "importKey (sample_platform n t) ''jwk'' (Val jwk_k1) RS256 False [''verify'']
                  = Inr (Val jwk_k1)"
    by (simp add: sample_platform_def sample_importKey_def jwk_k1_def)
  have ok: "verify (sample_platform n t) ''RSASSA-PKCS1-v1_5'' (Val jwk_k1) sample_signature
              (headerB64 @ ''.'' @ payloadB64) = Inr True"
    using assms(2) by (simp add: sample_platform_def sample_verify_def)
  have truthy: "truthy (Val jwk_k1)"
    by (simp add: jwk_k1_def)
  show ?thesis
    unfolding verifySignature_def
    using ok truthy
    by (simp add: keys find_jwk_sample_k1 [OF assms(1)] import atob_signature
        del: find_jwk.simps)
qed

lemma verifySignature_u1:
  "verifySignature (sample_platform n t) jwks_doc header_k1 seg_header_k1 seg_payload_u1 ''AQID''
     = Inr ()"
  by (rule verifySignature_sample) (simp_all add: header_k1_def sample_signed_def)

lemma verifySignature_noexp:
  "verifySignature (sample_platform n t) jwks_doc header_k1 seg_header_k1 seg_payload_noexp
     ''AQID'' = Inr ()"
  by (rule verifySignature_sample) (simp_all add: header_k1_def sample_signed_def)

lemma verifySignature_nosub:
  "verifySignature (sample_platform n t) jwks_doc header_k1 seg_header_k1 seg_payload_nosub
     ''AQID'' = Inr ()"
  by (rule verifySignature_sample) (simp_all add: header_k1_def sample_signed_def)

lemma verifySignature_none:
  "verifySignature (sample_platform n t) jwks_doc header_none seg_header_none seg_payload_u1
     ''AQID'' = Inr ()"
  by (rule verifySignature_sample) (simp_all add: header_none_def sample_signed_def)

lemma sample_issuer:
  "get_prop payload_u1 ''iss'' = Inr (Val (JStr OIDC_ISSUER))"
  "get_prop payload_noexp ''iss'' = Inr (Val (JStr OIDC_ISSUER))"
  "get_prop payload_nosub ''iss'' = Inr (Val (JStr OIDC_ISSUER))"
  by (simp_all add: payload_u1_def payload_noexp_def payload_nosub_def OIDC_ISSUER_def)

lemma sample_exp:
  "get_prop payload_u1 ''exp'' = Inr (Val (JNum 1700000000))"
  "get_prop payload_noexp ''exp'' = Inr Undefined"
  "get_prop payload_nosub ''exp'' = Inr (Val (JNum 1700000000))"
  by (simp_all add: payload_u1_def payload_noexp_def payload_nosub_def)

lemma sample_sub:
  "get_prop payload_u1 ''sub'' = Inr (Val (JStr ''u1''))"
  "get_prop payload_noexp ''sub'' = Inr (Val (JStr ''u1''))"
  "get_prop payload_nosub ''sub'' = Inr Undefined"
  by (simp_all add: payload_u1_def payload_noexp_def payload_nosub_def)

lemma sample_now_claims: "now_claims (sample_platform n t) = t"
  by (simp add: sample_platform_def)


section \<open>The stages of \<^verbatim>\<open>validateJWT\<close>\<close>


lemma parseJWT_segments:
  assumes "parseJWT h token = Inr (header, payload, headerB64, payloadB64, signatureB64)"
  shows "split_char CHR ''.'' token = [headerB64, payloadB64, signatureB64]"
proof -
  from assms have len: "length (split_char CHR ''.'' token) = 3"
    by (auto simp: parseJWT_def Let_def split: if_splits)
  then obtain a b c where parts: "split_char CHR ''.'' token = [a, b, c]"
    by (auto simp: length_Suc_conv numeral_3_eq_3)
  with assms show ?thesis
    by (auto simp: parseJWT_def Let_def split: sum.splits)
qed

lemma validateJWT_stages:
  assumes "parseJWT h token = Inr (header, payload, headerB64, payloadB64, signatureB64)"
    and "getJWKS h w = (Inr jwks, w')"
    and "verifySignature h jwks header headerB64 payloadB64 signatureB64 = Inr ()"
  shows "validateJWT h w token = (verifyClaims h payload, w')"
  using assms by (simp add: validateJWT_def)

lemma validateJWT_success:
  assumes "validateJWT h w token = (Inr claims, w')"
  shows "\<exists>header headerB64 payloadB64 signatureB64 jwks.
           parseJWT h token = Inr (header, claims, headerB64, payloadB64, signatureB64) \<and>
           getJWKS h w = (Inr jwks, w') \<and>
           verifySignature h jwks header headerB64 payloadB64 signatureB64 = Inr () \<and>
           verifyClaims h claims = Inr claims"
  using assms
  by (auto simp: validateJWT_def verifyClaims_def split: sum.splits prod.splits if_splits)

lemma is_integer_of_int: "is_integer (of_int e)"
  by (simp add: is_integer_def)

lemma is_integer_numeral: "is_integer (numeral n)"
  by (simp add: is_integer_def)

lemma js_mul_integer:
  "js_mul h (Num (of_int e)) (Num 1000) = Num (of_int (e * 1000))"
  by (simp add: is_integer_of_int is_integer_numeral)

lemma verifyClaims_integer_exp:
  assumes "get_prop payload ''iss'' = Inr (Val (JStr OIDC_ISSUER))"
    and "get_prop payload ''exp'' = Inr (Val (JNum (of_int e)))"
  shows "verifyClaims h payload =
           (if e * 1000 < now_claims h then Inl (Error ''Token expired'') else Inr payload)"
proof -
  have "js_lt (js_mul h (ToNumber h (Val (JNum (of_int e)))) (Num 1000))
          (Num (of_int (now_claims h))) = (e * 1000 < now_claims h)"
    by (simp only: ToNumber.simps js_mul_integer js_lt.simps of_int_less_iff)
  with assms show ?thesis by (simp add: verifyClaims_def del: js_mul.simps)
qed

lemma verifyClaims_no_exp:
  assumes "get_prop payload ''iss'' = Inr (Val (JStr OIDC_ISSUER))"
    and "get_prop payload ''exp'' = Inr Undefined"
  shows "verifyClaims h payload = Inr payload"
  using assms by (simp add: verifyClaims_def)

text \<open>
  C1, as the code has it. For a token that has passed parsing, the key lookup, the
  signature and the issuer check, and whose \<^verbatim>\<open>exp\<close> is an integer \<open>e\<close> of epoch seconds:
  \<^verbatim>\<open>validateJWT\<close> throws \<^verbatim>\<open>Error("Token expired")\<close> exactly when \<open>e * 1000\<close> is below the
  clock in milliseconds, and returns the payload otherwise, so that a token whose \<^verbatim>\<open>exp\<close>
  is the current instant is still accepted.
\<close>

theorem validateJWT_expiry:
  assumes "parseJWT h token = Inr (header, payload, headerB64, payloadB64, signatureB64)"
    and "getJWKS h w = (Inr jwks, w')"
    and "verifySignature h jwks header headerB64 payloadB64 signatureB64 = Inr ()"
    and "get_prop payload ''iss'' = Inr (Val (JStr OIDC_ISSUER))"
    and "get_prop payload ''exp'' = Inr (Val (JNum (of_int e)))"
  shows "validateJWT h w token =
           (if e * 1000 < now_claims h then Inl (Error ''Token expired'') else Inr payload, w')"
  using validateJWT_stages [OF assms(1-3)]
    verifyClaims_integer_exp [OF assms(4,5), where h = h]
  by simp

theorem validateJWT_expiry_witness:
  "parseJWT (sample_platform 200 1700000000001) token_u1 =
     Inr (header_k1, payload_u1, seg_header_k1, seg_payload_u1, ''AQID'') \<and>
   getJWKS (sample_platform 200 1700000000001) initial_worker = (Inr jwks_doc, filled_worker) \<and>
   verifySignature (sample_platform 200 1700000000001) jwks_doc header_k1 seg_header_k1
     seg_payload_u1 ''AQID'' = Inr () \<and>
   get_prop payload_u1 ''iss'' = Inr (Val (JStr OIDC_ISSUER)) \<and>
   get_prop payload_u1 ''exp'' = Inr (Val (JNum (of_int 1700000000))) \<and>
   validateJWT (sample_platform 200 1700000000001) initial_worker token_u1 =
     (Inl (Error ''Token expired''), filled_worker)"
proof -
  have exp: "get_prop payload_u1 ''exp'' = Inr (Val (JNum (of_int 1700000000)))"
    by (simp add: sample_exp)
  from validateJWT_expiry [OF parse_token_u1 getJWKS_sample_initial verifySignature_u1
      sample_issuer(1) exp, of 200 1700000000001]
  have "validateJWT (sample_platform 200 1700000000001) initial_worker token_u1 =
     (Inl (Error ''Token expired''), filled_worker)"
    by (simp add: sample_now_claims)
  then show ?thesis
    using parse_token_u1 getJWKS_sample_initial verifySignature_u1 sample_issuer(1) exp
    by blast
qed

text \<open>
  C1 as stated fails twice. The token \<open>token_u1\<close> has \<^verbatim>\<open>exp = 1700000000\<close>; when the clock
  reads \<^verbatim>\<open>1700000000000\<close> ms, that very instant, it is accepted. The token
  \<open>token_noexp\<close> has no \<^verbatim>\<open>exp\<close>: \<^verbatim>\<open>undefined * 1000\<close> is \<^verbatim>\<open>NaN\<close>, no comparison with \<^verbatim>\<open>NaN\<close>
  is true, and it is accepted.
\<close>

theorem expiry_counterexample:
  "get_prop payload_u1 ''exp'' = Inr (Val (JNum 1700000000)) \<and>
   now_claims (sample_platform 200 1700000000000) = 1700000000 * 1000 \<and>
   validateJWT (sample_platform 200 1700000000000) initial_worker token_u1 =
     (Inr payload_u1, filled_worker) \<and>
   get_prop payload_noexp ''exp'' = Inr Undefined \<and>
   validateJWT sample_host initial_worker token_noexp = (Inr payload_noexp, filled_worker)"
proof -
  have "verifyClaims (sample_platform 200 1700000000000) payload_u1 = Inr payload_u1"
    by (simp add: verifyClaims_def is_integer_numeral sample_issuer sample_exp sample_now_claims)
  then have a: "validateJWT (sample_platform 200 1700000000000) initial_worker token_u1 =
     (Inr payload_u1, filled_worker)"
    using validateJWT_stages [OF parse_token_u1 getJWKS_sample_initial verifySignature_u1,
        of 200 1700000000000]
    by simp
  have "verifyClaims sample_host payload_noexp = Inr payload_noexp"
    by (rule verifyClaims_no_exp) (rule sample_issuer sample_exp)+
  then have b: "validateJWT sample_host initial_worker token_noexp =
      (Inr payload_noexp, filled_worker)"
    using validateJWT_stages [OF parse_token_noexp getJWKS_sample_initial
        verifySignature_noexp, of 200 1699999000500]
    by (simp add: sample_host_def)
  show ?thesis
    using a b by (simp add: sample_exp sample_now_claims)
qed




section \<open>Signature verification\<close>

lemma find_jwk_kid:
  "get_prop header' ''kid'' = get_prop header ''kid'' \<Longrightarrow>
     find_jwk keys header' = find_jwk keys header"
  by (induction keys) (auto split: sum.splits)

lemma verifySignature_success:
  assumes "verifySignature h jwks header headerB64 payloadB64 signatureB64 = Inr ()"
  shows "\<exists>keys jwk key signature.
           get_prop jwks ''keys'' = Inr (Val (JArr keys)) \<and>
           find_jwk keys header = Inr jwk \<and> truthy jwk \<and>
           importKey h ''jwk'' jwk RS256 False [''verify''] = Inr key \<and>
           atob signatureB64 = Inr signature \<and>
           verify h ''RSASSA-PKCS1-v1_5'' key signature (headerB64 @ ''.'' @ payloadB64)
             = Inr True"
  using assms
  by (auto simp: verifySignature_def Let_def
      split: sum.splits jsval.splits json.splits if_splits)

text \<open>
  C2, as the code has it. The algorithm is fixed: the outcome of the verification depends
  on the header through its \<^verbatim>\<open>kid\<close> only, so two headers with the same \<^verbatim>\<open>kid\<close> give the
  same outcome whatever \<^verbatim>\<open>alg\<close> they name; and when the verification succeeds, the key
  found under that \<^verbatim>\<open>kid\<close> was imported for RSASSA-PKCS1-v1_5 with SHA-256 and the
  platform verified the signature under RSASSA-PKCS1-v1_5.
\<close>

theorem verifySignature_fixed_algorithm:
  assumes "get_prop header' ''kid'' = get_prop header ''kid''"
  shows "verifySignature h jwks header' headerB64 payloadB64 signatureB64 =
           verifySignature h jwks header headerB64 payloadB64 signatureB64 \<and>
         (verifySignature h jwks header headerB64 payloadB64 signatureB64 = Inr () \<longrightarrow>
            (\<exists>keys jwk key signature.
               get_prop jwks ''keys'' = Inr (Val (JArr keys)) \<and>
               find_jwk keys header = Inr jwk \<and> truthy jwk \<and>
               importKey h ''jwk'' jwk RS256 False [''verify''] = Inr key \<and>
               atob signatureB64 = Inr signature \<and>
               verify h ''RSASSA-PKCS1-v1_5'' key signature (headerB64 @ ''.'' @ payloadB64)
                 = Inr True))"
proof
  show "verifySignature h jwks header' headerB64 payloadB64 signatureB64 =
           verifySignature h jwks header headerB64 payloadB64 signatureB64"
    by (simp add: verifySignature_def find_jwk_kid [OF assms]
        split: sum.splits jsval.splits json.splits)
next
  show "verifySignature h jwks header headerB64 payloadB64 signatureB64 = Inr () \<longrightarrow>
            (\<exists>keys jwk key signature.
               get_prop jwks ''keys'' = Inr (Val (JArr keys)) \<and>
               find_jwk keys header = Inr jwk \<and> truthy jwk \<and>
               importKey h ''jwk'' jwk RS256 False [''verify''] = Inr key \<and>
               atob signatureB64 = Inr signature \<and>
               verify h ''RSASSA-PKCS1-v1_5'' key signature (headerB64 @ ''.'' @ payloadB64)
                 = Inr True)"
    using verifySignature_success by blast
qed

theorem verifySignature_fixed_algorithm_witness:
  "get_prop header_none ''kid'' = get_prop header_k1 ''kid'' \<and>
   verifySignature sample_host jwks_doc header_k1 seg_header_k1 seg_payload_u1 ''AQID''
     = Inr () \<and>
   verifySignature sample_host jwks_doc header_none seg_header_k1 seg_payload_u1 ''AQID''
     = Inr () \<and>
   (\<exists>keys jwk key signature.
      get_prop jwks_doc ''keys'' = Inr (Val (JArr keys)) \<and>
      find_jwk keys header_k1 = Inr jwk \<and> truthy jwk \<and>
      importKey sample_host ''jwk'' jwk RS256 False [''verify''] = Inr key \<and>
      atob ''AQID'' = Inr signature \<and>
      verify sample_host ''RSASSA-PKCS1-v1_5'' key signature
        (seg_header_k1 @ ''.'' @ seg_payload_u1) = Inr True)"
proof -
  have kid: "get_prop header_none ''kid'' = get_prop header_k1 ''kid''"
    by (simp add: header_none_def header_k1_def)
  have ok: "verifySignature sample_host jwks_doc header_k1 seg_header_k1 seg_payload_u1
              ''AQID'' = Inr ()"
    by (simp add: sample_host_def verifySignature_u1)
  from verifySignature_fixed_algorithm [OF kid, of sample_host jwks_doc seg_header_k1
      seg_payload_u1 "''AQID''"] ok
  show ?thesis
    using kid by simp
qed

text \<open>
  C2 as stated fails: the header of \<open>token_none\<close> names the algorithm \<^verbatim>\<open>none\<close>, which is
  not the algorithm of the verification, and the token is accepted, its signature having
  been verified under RSASSA-PKCS1-v1_5.
\<close>

theorem algorithm_counterexample:
  "parseJWT sample_host token_none =
     Inr (JObj [(''kid'', JStr ''k1''), (''alg'', JStr ''none'')], payload_u1,
          seg_header_none, seg_payload_u1, ''AQID'') \<and>
   validateJWT sample_host initial_worker token_none = (Inr payload_u1, filled_worker)"
proof -
  have "verifyClaims sample_host payload_u1 = Inr payload_u1"
    by (simp add: verifyClaims_def is_integer_numeral sample_issuer sample_exp sample_host_def sample_now_claims)
  then have "validateJWT sample_host initial_worker token_none = (Inr payload_u1, filled_worker)"
    using validateJWT_stages [OF parse_token_none getJWKS_sample_initial verifySignature_none,
        of 200 1699999000500]
    by (simp add: sample_host_def)
  then show ?thesis
    using parse_token_none [of 200 1699999000500]
    by (simp add: sample_host_def header_none_def)
qed

section \<open>A header without \<^verbatim>\<open>kid\<close>\<close>

lemma find_jwk_no_kid:
  assumes "get_prop header ''kid'' = Inr Undefined"
    and "\<forall>k \<in> set keys. \<exists>v. get_prop k ''kid'' = Inr (Val v)"
  shows "find_jwk keys header = Inr Undefined"
  using assms by (induction keys) auto

text \<open>
  C5, as the code has it. Parsing does not look for \<^verbatim>\<open>kid\<close>: a header that is an object
  without \<^verbatim>\<open>kid\<close> is parsed, and its \<^verbatim>\<open>kid\<close>, \<^verbatim>\<open>undefined\<close>, is looked up in the key set.
  When every key of the set carries a \<^verbatim>\<open>kid\<close>, none matches and \<^verbatim>\<open>validateJWT\<close> throws
  \<^verbatim>\<open>Error("No matching JWK")\<close>, the failure that the specification calls \<open>UnknownKey\<close>.
\<close>

theorem validateJWT_header_without_kid:
  assumes "parseJWT h token = Inr (JObj hps, payload, headerB64, payloadB64, signatureB64)"
    and "map_of hps ''kid'' = None"
    and "getJWKS h w = (Inr jwks, w')"
    and "get_prop jwks ''keys'' = Inr (Val (JArr keys))"
    and "\<forall>k \<in> set keys. \<exists>v. get_prop k ''kid'' = Inr (Val v)"
  shows "validateJWT h w token = (Inl (Error ''No matching JWK''), w')"
proof -
  have "get_prop (JObj hps) ''kid'' = Inr Undefined"
    using assms(2) by simp
  then have "find_jwk keys (JObj hps) = Inr Undefined"
    using assms(5) by (rule find_jwk_no_kid)
  then have "verifySignature h jwks (JObj hps) headerB64 payloadB64 signatureB64
               = Inl (Error ''No matching JWK'')"
    using assms(4) by (simp add: verifySignature_def)
  then show ?thesis
    using assms(1,3) by (simp add: validateJWT_def)
qed

theorem validateJWT_header_without_kid_witness:
  "parseJWT sample_host token_nokid =
     Inr (JObj [(''alg'', JStr ''RS256'')], payload_u1, seg_header_nokid, seg_payload_u1,
          ''AQID'') \<and>
   map_of [(''alg'', JStr ''RS256'')] ''kid'' = None \<and>
   getJWKS sample_host initial_worker = (Inr jwks_doc, filled_worker) \<and>
   get_prop jwks_doc ''keys'' = Inr (Val (JArr [jwk_k1])) \<and>
   get_prop jwk_k1 ''kid'' = Inr (Val (JStr ''k1'')) \<and>
   validateJWT sample_host initial_worker token_nokid =
     (Inl (Error ''No matching JWK''), filled_worker)"
proof -
  have h1: "parseJWT sample_host token_nokid =
     Inr (JObj [(''alg'', JStr ''RS256'')], payload_u1, seg_header_nokid, seg_payload_u1,
          ''AQID'')"
    using parse_token_nokid [of 200 1699999000500]
    by (simp add: sample_host_def header_nokid_def)
  have h2: "map_of [(''alg'', JStr ''RS256'')] ''kid'' = None"
    by simp
  have h3: "getJWKS sample_host initial_worker = (Inr jwks_doc, filled_worker)"
    by (simp add: sample_host_def getJWKS_sample_initial)
  have h4: "get_prop jwks_doc ''keys'' = Inr (Val (JArr [jwk_k1]))"
    by (simp add: jwks_doc_def)
  have h5: "\<forall>k \<in> set [jwk_k1]. \<exists>v. get_prop k ''kid'' = Inr (Val v)"
    by (simp add: jwk_k1_def)
  have h6: "get_prop jwk_k1 ''kid'' = Inr (Val (JStr ''k1''))"
    by (simp add: jwk_k1_def)
  from validateJWT_header_without_kid [OF h1 h2 h3 h4 h5]
  show ?thesis
    using h1 h2 h3 h4 h6 by blast
qed

text \<open>
  C5 as stated fails: the header of \<open>token_nokid\<close> is the object \<^verbatim>\<open>{"alg":"RS256"}\<close>,
  without \<^verbatim>\<open>kid\<close>; parsing succeeds, and the failure comes from the key lookup, under the
  message that stands for \<open>UnknownKey\<close>, not for \<open>MalformedToken\<close>.
\<close>

theorem kid_counterexample:
  "get_prop header_nokid ''kid'' = Inr Undefined \<and>
   parseJWT sample_host token_nokid =
     Inr (header_nokid, payload_u1, seg_header_nokid, seg_payload_u1, ''AQID'') \<and>
   fst (validateJWT sample_host initial_worker token_nokid) = Inl (Error ''No matching JWK'') \<and>
   auth_error (Error ''No matching JWK'') = Some UnknownKey \<and>
   auth_error (Error ''No matching JWK'') \<noteq> Some MalformedToken"
proof -
  have nokid: "get_prop header_nokid ''kid'' = Inr Undefined"
    by (simp add: header_nokid_def)
  have keys: "get_prop jwks_doc ''keys'' = Inr (Val (JArr [jwk_k1]))"
    by (simp add: jwks_doc_def)
  have "find_jwk [jwk_k1] header_nokid = Inr Undefined"
    by (simp add: jwk_k1_def header_nokid_def)
  then have "verifySignature sample_host jwks_doc header_nokid seg_header_nokid
               seg_payload_u1 ''AQID'' = Inl (Error ''No matching JWK'')"
    by (simp add: verifySignature_def keys)
  then have "validateJWT sample_host initial_worker token_nokid =
               (Inl (Error ''No matching JWK''), filled_worker)"
    using parse_token_nokid [of 200 1699999000500] getJWKS_sample_initial [of 200 1699999000500]
    by (simp add: validateJWT_def sample_host_def)
  then show ?thesis
    using nokid parse_token_nokid [of 200 1699999000500]
    by (simp add: sample_host_def)
qed


section \<open>What the platform's fields are read for\<close>

lemma ToNumber_cong:
  "ToNumber_object h' = ToNumber_object h \<Longrightarrow> ToNumber h' v = ToNumber h v"
  by (cases "(h, v)" rule: ToNumber.cases) auto

lemma parseJWT_cong:
  "JSON_parse h' = JSON_parse h \<Longrightarrow> parseJWT h' token = parseJWT h token"
  by (simp add: parseJWT_def Let_def cong: sum.case_cong if_cong)

lemma getJWKS_cong:
  assumes "now_getJWKS h' = now_getJWKS h"
    and "\<And>u. fetch_json h' u = fetch_json h u"
  shows "getJWKS h' w = getJWKS h w"
  using assms by (simp add: getJWKS_def Let_def cong: sum.case_cong if_cong)

lemma verifySignature_cong:
  assumes "importKey h' = importKey h" and "verify h' = verify h"
  shows "verifySignature h' jwks header headerB64 payloadB64 signatureB64 =
           verifySignature h jwks header headerB64 payloadB64 signatureB64"
  using assms
  by (simp add: verifySignature_def Let_def
      cong: sum.case_cong jsval.case_cong json.case_cong if_cong)

lemma js_mul_cong: "multiply h' = multiply h \<Longrightarrow> js_mul h' a b = js_mul h a b"
  by (cases "(h, a, b)" rule: js_mul.cases) auto

lemma verifyClaims_cong:
  assumes "ToNumber_object h' = ToNumber_object h" and "multiply h' = multiply h"
    and "now_claims h' = now_claims h"
  shows "verifyClaims h' payload = verifyClaims h payload"
  using assms(3)
  by (simp add: verifyClaims_def ToNumber_cong [OF assms(1)] js_mul_cong [OF assms(2)]
      cong: sum.case_cong if_cong)

lemma validateJWT_cong:
  assumes "JSON_parse h' = JSON_parse h"
    and "now_getJWKS h' = now_getJWKS h"
    and "\<And>u. fetch_json h' u = fetch_json h u"
    and "importKey h' = importKey h" and "verify h' = verify h"
    and "ToNumber_object h' = ToNumber_object h" and "multiply h' = multiply h"
    and "now_claims h' = now_claims h"
  shows "validateJWT h' w token = validateJWT h w token"
  unfolding validateJWT_def
  by (simp add: parseJWT_cong [OF assms(1)] getJWKS_cong [OF assms(2,3)]
      verifySignature_cong [OF assms(4,5)] verifyClaims_cong [OF assms(6,7,8)]
      cong: sum.case_cong prod.case_cong)

lemma fetch_json_with_status: "fetch_json (with_status g h) u = fetch_json h u"
  by (simp add: fetch_json_def with_status_def split: sum.splits)

lemma validateJWT_with_status: "validateJWT (with_status g h) w token = validateJWT h w token"
  by (rule validateJWT_cong) (simp_all add: fetch_json_with_status, simp_all add: with_status_def)

lemma validateJWT_backend:
  "validateJWT (h\<lparr>fetch_backend := b\<rparr>) w token = validateJWT h w token"
  by (rule validateJWT_cong) (simp_all add: fetch_json_def cong: sum.case_cong)

section \<open>Failures of the key source\<close>

lemma getJWKS_fetch_failure:
  assumes "\<not> cache_fresh w (now_getJWKS h)"
    and "fetch_json h (Val (JStr oidcConfigUrl)) = Inl e \<or>
         (\<exists>cfg u. fetch_json h (Val (JStr oidcConfigUrl)) = Inr cfg \<and>
                  get_prop cfg ''jwks_uri'' = Inr u \<and> fetch_json h u = Inl e)"
  shows "fst (getJWKS h w) = Inl e"
  using assms by (auto simp: getJWKS_def cache_fresh_def Let_def)

text \<open>
  C4, as the code has it. When the cache is not fresh and the fetch of the discovery
  document or of the key set rejects, or its body is not JSON, \<^verbatim>\<open>getJWKS\<close> throws the
  exception of \<^verbatim>\<open>fetch\<close> or of \<^verbatim>\<open>r.json()\<close>, and so does \<^verbatim>\<open>validateJWT\<close> for a token that
  has been parsed. The status of a response is never read: whatever the statuses are,
  the result is the same.
\<close>

theorem validateJWT_key_source_failure:
  assumes "parseJWT h token = Inr parsed"
    and "\<not> cache_fresh w (now_getJWKS h)"
    and "fetch_json h (Val (JStr oidcConfigUrl)) = Inl e \<or>
         (\<exists>cfg u. fetch_json h (Val (JStr oidcConfigUrl)) = Inr cfg \<and>
                  get_prop cfg ''jwks_uri'' = Inr u \<and> fetch_json h u = Inl e)"
  shows "fst (validateJWT h w token) = Inl e \<and>
         (\<forall>g. validateJWT (with_status g h) w token = validateJWT h w token)"
proof -
  have "fst (getJWKS h w) = Inl e"
    using assms(2,3) by (rule getJWKS_fetch_failure)
  then have "fst (validateJWT h w token) = Inl e"
    using assms(1) by (cases "getJWKS h w") (auto simp: validateJWT_def split: prod.splits)
  then show ?thesis
    by (simp add: validateJWT_with_status)
qed

lemma parse_token_u1_offline:
  "parseJWT offline_host token_u1 =
     Inr (header_k1, payload_u1, seg_header_k1, seg_payload_u1, ''AQID'')"
proof -
  have "JSON_parse offline_host = JSON_parse (sample_platform 200 1699999000500)"
    by (simp add: offline_host_def sample_host_def)
  then have "parseJWT offline_host token_u1 =
               parseJWT (sample_platform 200 1699999000500) token_u1"
    by (rule parseJWT_cong)
  then show ?thesis
    by (simp add: parse_token_u1)
qed

theorem validateJWT_key_source_failure_witness:
  "parseJWT offline_host token_u1 =
     Inr (header_k1, payload_u1, seg_header_k1, seg_payload_u1, ''AQID'') \<and>
   \<not> cache_fresh initial_worker (now_getJWKS offline_host) \<and>
   fetch_json offline_host (Val (JStr oidcConfigUrl)) = Inl (HostException ''NetworkError'') \<and>
   fst (validateJWT offline_host initial_worker token_u1) = Inl (HostException ''NetworkError'')"
proof -
  have down: "fetch_json offline_host (Val (JStr oidcConfigUrl)) =
                Inl (HostException ''NetworkError'')"
    by (simp add: fetch_json_def offline_host_def)
  then have either: "fetch_json offline_host (Val (JStr oidcConfigUrl)) =
                Inl (HostException ''NetworkError'') \<or>
         (\<exists>cfg u. fetch_json offline_host (Val (JStr oidcConfigUrl)) = Inr cfg \<and>
                  get_prop cfg ''jwks_uri'' = Inr u \<and>
                  fetch_json offline_host u = Inl (HostException ''NetworkError''))"
    by simp
  from validateJWT_key_source_failure [OF parse_token_u1_offline initial_not_fresh either]
  show ?thesis
    using parse_token_u1_offline initial_not_fresh down by blast
qed

text \<open>
  C4 as stated fails: on the platform \<open>sample_platform 500\<close> the key-set endpoint answers
  with status 500 and a body that is JSON; \<^verbatim>\<open>getJWKS\<close> takes the body as the key set,
  stores it in the cache, and the token is accepted.
\<close>

theorem status_counterexample:
  "fetch (sample_platform 500 1699999000500) (Val (JStr keys_url)) =
     Inr \<lparr>status = 500, body = jwks_text\<rparr> \<and>
   getJWKS (sample_platform 500 1699999000500) initial_worker = (Inr jwks_doc, filled_worker) \<and>
   validateJWT (sample_platform 500 1699999000500) initial_worker token_u1 =
     (Inr payload_u1, filled_worker)"
proof -
  have "fetch (sample_platform 500 1699999000500) (Val (JStr keys_url)) =
     Inr \<lparr>status = 500, body = jwks_text\<rparr>"
    by (simp add: sample_platform_def sample_fetch_def keys_url_not_config)
  moreover have "verifyClaims (sample_platform 500 1699999000500) payload_u1 = Inr payload_u1"
    by (simp add: verifyClaims_def is_integer_numeral sample_issuer sample_exp sample_now_claims)
  then have "validateJWT (sample_platform 500 1699999000500) initial_worker token_u1 =
     (Inr payload_u1, filled_worker)"
    using validateJWT_stages [OF parse_token_u1 getJWKS_sample_initial verifySignature_u1,
        of 500 1699999000500]
    by simp
  ultimately show ?thesis
    by (simp add: getJWKS_sample_initial)
qed

section \<open>The request handler\<close>

lemma handle_fetch_bearer:
  "authorization req = Some (''Bearer '' @ token) \<Longrightarrow>
   handle_fetch h w req =
     (case validateJWT h w token of
        (Inl err, w') \<Rightarrow> (unauthorized h err, w')
      | (Inr claims, w') \<Rightarrow>
          (case get_prop claims ''sub'' of
             Inl err \<Rightarrow> (unauthorized h err, w')
           | Inr sub \<Rightarrow>
               if \<not> truthy sub
               then (\<lparr>status = 403, body = ''Forbidden: Invalid token claims''\<rparr>, w')
               else
                 (case fetch_backend h (API_BACKEND @ pathname req) req of
                    Inl err \<Rightarrow> (unauthorized h err, w')
                  | Inr backendResp \<Rightarrow> (backendResp, w'))))"
  by (simp add: handle_fetch_def)

text \<open>
  C6, as the code has it. \<^verbatim>\<open>validateJWT\<close> does not look at \<^verbatim>\<open>sub\<close>: a token that passes the
  signature, issuer and expiry checks has its payload returned to the request handler.
  When that payload's \<^verbatim>\<open>sub\<close> is absent or the empty string, the handler answers 403
  \<^verbatim>\<open>Forbidden: Invalid token claims\<close> and does not call the backend, the answer being
  the same whatever the backend would do.
\<close>

theorem handle_fetch_missing_subject:
  assumes "authorization req = Some (''Bearer '' @ token)"
    and "validateJWT h w token = (Inr claims, w')"
    and "get_prop claims ''sub'' = Inr Undefined \<or> get_prop claims ''sub'' = Inr (Val (JStr ''''))"
  shows "handle_fetch h w req =
           (\<lparr>status = 403, body = ''Forbidden: Invalid token claims''\<rparr>, w') \<and>
         (\<forall>b. handle_fetch (h\<lparr>fetch_backend := b\<rparr>) w req = handle_fetch h w req)"
proof -
  have answer: "handle_fetch h' w req =
                  (\<lparr>status = 403, body = ''Forbidden: Invalid token claims''\<rparr>, w')"
    if "validateJWT h' w token = (Inr claims, w')" for h' :: "'a host"
    using assms(1,3) that by (auto simp: handle_fetch_bearer)
  have "handle_fetch (h\<lparr>fetch_backend := b\<rparr>) w req = handle_fetch h w req" for b
    using answer [of h] answer [of "h\<lparr>fetch_backend := b\<rparr>"] assms(2)
    by (simp add: validateJWT_backend)
  with answer [OF assms(2)] show ?thesis by simp
qed

lemma validateJWT_token_nosub:
  "validateJWT sample_host initial_worker token_nosub = (Inr payload_nosub, filled_worker)"
proof -
  have "verifyClaims (sample_platform 200 1699999000500) payload_nosub = Inr payload_nosub"
    by (simp add: verifyClaims_def is_integer_numeral sample_issuer sample_exp sample_now_claims)
  then show ?thesis
    using validateJWT_stages [OF parse_token_nosub getJWKS_sample_initial verifySignature_nosub,
        of 200 1699999000500]
    by (simp add: sample_host_def)
qed

theorem handle_fetch_missing_subject_witness:
  "authorization (sample_request token_nosub) = Some (''Bearer '' @ token_nosub) \<and>
   validateJWT sample_host initial_worker token_nosub = (Inr payload_nosub, filled_worker) \<and>
   get_prop payload_nosub ''sub'' = Inr Undefined \<and>
   handle_fetch sample_host initial_worker (sample_request token_nosub) =
     (\<lparr>status = 403, body = ''Forbidden: Invalid token claims''\<rparr>, filled_worker)"
proof -
  have auth: "authorization (sample_request token_nosub) = Some (''Bearer '' @ token_nosub)"
    by (simp add: sample_request_def)
  have sub: "get_prop payload_nosub ''sub'' = Inr Undefined \<or>
             get_prop payload_nosub ''sub'' = Inr (Val (JStr ''''))"
    by (simp add: sample_sub)
  from handle_fetch_missing_subject [OF auth validateJWT_token_nosub sub]
  show ?thesis
    using auth validateJWT_token_nosub sample_sub(3) by blast
qed


text \<open>
  C6 as stated fails: the payload of \<open>token_nosub\<close> has no \<^verbatim>\<open>sub\<close>, the token passes the
  signature, issuer and expiry checks, and \<^verbatim>\<open>validateJWT\<close> does not fail: it returns the
  payload to its caller.
\<close>

theorem subject_counterexample:
  "get_prop payload_nosub ''sub'' = Inr Undefined \<and>
   validateJWT sample_host initial_worker token_nosub = (Inr payload_nosub, filled_worker)"
  by (simp add: sample_sub validateJWT_token_nosub)

section \<open>Exceptions of \<^verbatim>\<open>validateJWT\<close>\<close>

lemma atob_error: "atob s = Inl e \<Longrightarrow> e = InvalidCharacterError"
  by (auto simp: atob_def Let_def split: if_splits)

lemma parseJWT_error:
  assumes "parseJWT h token = Inl e"
  shows "e = Error ''Invalid JWT format'' \<or> e = InvalidCharacterError \<or>
         (\<exists>s. JSON_parse h s = Inl e)"
  using assms
  by (auto simp: parseJWT_def Let_def split: if_splits sum.splits dest: atob_error)

lemma fetch_json_error:
  assumes "fetch_json h u = Inl e"
  shows "fetch h u = Inl e \<or> (\<exists>b. response_json h b = Inl e)"
  using assms by (auto simp: fetch_json_def split: sum.splits)

lemma get_prop_error: "get_prop v p = Inl e \<Longrightarrow> e = TypeError"
  by (cases v) (auto split: if_splits)

lemma getJWKS_error:
  assumes "getJWKS h w = (Inl e, w')"
  shows "e = TypeError \<or> (\<exists>u. fetch h u = Inl e) \<or> (\<exists>b. response_json h b = Inl e)"
  using assms
  by (auto simp: getJWKS_def Let_def split: if_splits sum.splits
      dest!: fetch_json_error get_prop_error)

lemma find_jwk_error: "find_jwk keys header = Inl e \<Longrightarrow> e = TypeError"
  by (induction keys) (auto split: sum.splits if_splits dest: get_prop_error)

lemma verifySignature_error:
  assumes "verifySignature h jwks header headerB64 payloadB64 signatureB64 = Inl e"
  shows "e = TypeError \<or> e = Error ''No matching JWK'' \<or> e = InvalidCharacterError \<or>
         e = Error ''Invalid signature'' \<or>
         (\<exists>f jwk a x us. importKey h f jwk a x us = Inl e) \<or>
         (\<exists>a key s d. verify h a key s d = Inl e)"
proof (cases "get_prop jwks ''keys''")
  case (Inl e')
  then show ?thesis
    using assms by (auto simp: verifySignature_def dest: get_prop_error)
next
  case (Inr keys)
  show ?thesis
  proof (cases "\<exists>ks. keys = Val (JArr ks)")
    case False
    then have "verifySignature h jwks header headerB64 payloadB64 signatureB64 = Inl TypeError"
      using Inr by (auto simp: verifySignature_def split: jsval.splits json.splits)
    with assms show ?thesis by simp
  next
    case True
    then obtain ks where ks: "keys = Val (JArr ks)" by blast
    show ?thesis
    proof (cases "find_jwk ks header")
      case (Inl e')
      then show ?thesis
        using assms Inr ks by (auto simp: verifySignature_def dest: find_jwk_error)
    next
      case found: (Inr jwk)
      show ?thesis
      proof (cases "truthy jwk")
        case False
        then show ?thesis
          using assms Inr ks found by (auto simp: verifySignature_def)
      next
        case True
        then show ?thesis
          using assms Inr ks found
          by (auto simp: verifySignature_def Let_def split: sum.splits if_splits
              dest: atob_error)
      qed
    qed
  qed
qed

lemma verifyClaims_error:
  assumes "verifyClaims h payload = Inl e"
  shows "e = TypeError \<or> e = Error ''Invalid issuer'' \<or> e = Error ''Token expired''"
  using assms
  by (auto simp: verifyClaims_def split: sum.splits if_splits dest: get_prop_error)

lemma validateJWT_error:
  assumes "fst (validateJWT h w token) = Inl e"
  shows "auth_error e \<noteq> None \<or> e = InvalidCharacterError \<or> e = TypeError \<or>
         platform_raises h e"
proof (cases "parseJWT h token")
  case (Inl e')
  then have "e' = e"
    using assms by (simp add: validateJWT_def)
  with Inl parseJWT_error [of h token e] show ?thesis
    by (auto simp: platform_raises_def)
next
  case (Inr parsed)
  obtain header payload headerB64 payloadB64 signatureB64
    where parsed: "parsed = (header, payload, headerB64, payloadB64, signatureB64)"
    by (cases parsed) auto
  obtain r w' where keys: "getJWKS h w = (r, w')"
    by (cases "getJWKS h w") auto
  show ?thesis
  proof (cases r)
    case (Inl e')
    then have "e' = e"
      using assms Inr parsed keys by (simp add: validateJWT_def)
    with Inl keys getJWKS_error [of h w e w'] show ?thesis
      by (auto simp: platform_raises_def)
  next
    case jwks: (Inr jwks)
    show ?thesis
    proof (cases "verifySignature h jwks header headerB64 payloadB64 signatureB64")
      case (Inl e')
      then have "e' = e"
        using assms Inr parsed keys jwks by (simp add: validateJWT_def)
      with Inl verifySignature_error [of h jwks header headerB64 payloadB64 signatureB64 e]
      show ?thesis
        by (auto simp: platform_raises_def)
    next
      case (Inr u)
      then have "verifyClaims h payload = Inl e"
        using assms \<open>parseJWT h token = Inr parsed\<close> parsed keys jwks
        by (simp add: validateJWT_def)
      from verifyClaims_error [OF this] show ?thesis
        by auto
    qed
  qed
qed

lemma validateJWT_returns_parsed:
  assumes "fst (validateJWT h w token) = Inr claims"
  shows "\<exists>header headerB64 payloadB64 signatureB64.
           parseJWT h token = Inr (header, claims, headerB64, payloadB64, signatureB64)"
proof -
  obtain w' where "validateJWT h w token = (Inr claims, w')"
    using assms by (cases "validateJWT h w token") auto
  from validateJWT_success [OF this] show ?thesis by blast
qed

text \<open>
  C8, as the code has it. For every platform, worker and input string, \<^verbatim>\<open>validateJWT\<close>
  returns the payload it has parsed from the token, or throws: one of its own five
  errors, or an exception that is not one of them, namely the \<open>InvalidCharacterError\<close> of
  \<^verbatim>\<open>atob\<close>, a \<^verbatim>\<open>TypeError\<close> of the engine, or whatever \<^verbatim>\<open>JSON.parse\<close>, \<^verbatim>\<open>fetch\<close>,
  \<^verbatim>\<open>r.json()\<close>, \<^verbatim>\<open>importKey\<close> or \<^verbatim>\<open>verify\<close> has raised. None of these leaves the request
  handler: it answers 401 with the message of whatever \<^verbatim>\<open>validateJWT\<close> has thrown.
  (The functions of the model are total, the program having no loop of its own:
  \<^verbatim>\<open>validateJWT\<close> ends as soon as the interfaces of the platform that it awaits do.)
\<close>

theorem validateJWT_outcomes:
  "(case fst (validateJWT h w token) of
      Inr claims \<Rightarrow>
        (\<exists>header headerB64 payloadB64 signatureB64.
           parseJWT h token = Inr (header, claims, headerB64, payloadB64, signatureB64))
    | Inl e \<Rightarrow>
        auth_error e \<noteq> None \<or> e = InvalidCharacterError \<or> e = TypeError \<or>
        platform_raises h e) \<and>
   (authorization req = Some (''Bearer '' @ token) \<longrightarrow>
      (\<forall>e. fst (validateJWT h w token) = Inl e \<longrightarrow>
           handle_fetch h w req = (unauthorized h e, snd (validateJWT h w token))))"
proof
  show "case fst (validateJWT h w token) of
      Inr claims \<Rightarrow>
        (\<exists>header headerB64 payloadB64 signatureB64.
           parseJWT h token = Inr (header, claims, headerB64, payloadB64, signatureB64))
    | Inl e \<Rightarrow>
        auth_error e \<noteq> None \<or> e = InvalidCharacterError \<or> e = TypeError \<or>
        platform_raises h e"
    using validateJWT_error [of h w token] validateJWT_returns_parsed [of h w token]
    by (cases "fst (validateJWT h w token)") auto
next
  show "authorization req = Some (''Bearer '' @ token) \<longrightarrow>
      (\<forall>e. fst (validateJWT h w token) = Inl e \<longrightarrow>
           handle_fetch h w req = (unauthorized h e, snd (validateJWT h w token)))"
    by (cases "validateJWT h w token") (auto simp: handle_fetch_bearer)
qed

lemma validateJWT_abc:
  "validateJWT sample_host initial_worker ''a.b.c'' = (Inl InvalidCharacterError, initial_worker)"
proof -
  have "split_char CHR ''.'' ''a.b.c'' = [''a'', ''b'', ''c'']"
    by simp
  moreover have "atob ''a'' = Inl InvalidCharacterError"
    by (simp add: atob_def strip_padding_def ascii_whitespace_def)
  ultimately have "parseJWT sample_host ''a.b.c'' = Inl InvalidCharacterError"
    by (simp add: parseJWT_def)
  then show ?thesis
    by (simp add: validateJWT_def)
qed

theorem validateJWT_outcomes_witness:
  "authorization (sample_request ''a.b.c'') = Some (''Bearer '' @ ''a.b.c'') \<and>
   fst (validateJWT sample_host initial_worker ''a.b.c'') = Inl InvalidCharacterError \<and>
   handle_fetch sample_host initial_worker (sample_request ''a.b.c'') =
     (\<lparr>status = 401, body = ''Unauthorized: exception''\<rparr>, initial_worker)"
proof -
  have auth: "authorization (sample_request ''a.b.c'') = Some (''Bearer '' @ ''a.b.c'')"
    by (simp add: sample_request_def)
  have thrown: "fst (validateJWT sample_host initial_worker ''a.b.c'') = Inl InvalidCharacterError"
    by (simp add: validateJWT_abc)
  have answer: "unauthorized sample_host InvalidCharacterError =
                  \<lparr>status = 401, body = ''Unauthorized: exception''\<rparr>"
    by (simp add: unauthorized_def message_def sample_host_def sample_platform_def)
  from validateJWT_outcomes [where h = sample_host and w = initial_worker
      and token = "''a.b.c''" and req = "sample_request ''a.b.c''"] auth thrown
  have "handle_fetch sample_host initial_worker (sample_request ''a.b.c'') =
          (unauthorized sample_host InvalidCharacterError,
           snd (validateJWT sample_host initial_worker ''a.b.c''))"
    by blast
  then show ?thesis
    using auth thrown by (simp add: answer validateJWT_abc)
qed

text \<open>
  C8 as stated fails: on the input \<^verbatim>\<open>a.b.c\<close> the first segment is not base64, \<^verbatim>\<open>atob\<close>
  raises, and what leaves \<^verbatim>\<open>validateJWT\<close> is that \<open>InvalidCharacterError\<close>, which is none
  of the errors that the program classifies.
\<close>

theorem unclassified_counterexample:
  "fst (validateJWT sample_host initial_worker ''a.b.c'') = Inl InvalidCharacterError \<and>
   auth_error InvalidCharacterError = None"
  by (simp add: validateJWT_abc)

section \<open>A signature segment in the base64url alphabet\<close>

lemma strip_padding_keeps:
  assumes "c \<in> set s" and "c \<noteq> CHR ''=''"
  shows "c \<in> set (strip_padding s)"
proof -
  have keep: "c \<in> set (take (length s - n) s)" if "set (drop (length s - n) s) \<subseteq> {CHR ''=''}" for n
  proof -
    have "set s = set (take (length s - n) s) \<union> set (drop (length s - n) s)"
      by (metis append_take_drop_id set_append)
    with assms that show ?thesis by auto
  qed
  show ?thesis
    using assms(1) keep [of 2] keep [of 1] by (auto simp: strip_padding_def)
qed

lemma atob_outside_alphabet:
  assumes "c \<in> set s" and "b64_value c = None" and "\<not> ascii_whitespace c" and "c \<noteq> CHR ''=''"
  shows "atob s = Inl InvalidCharacterError"
proof -
  have "c \<in> set (filter (\<lambda>c. \<not> ascii_whitespace c) s)"
    using assms(1,3) by simp
  then have "c \<in> set (strip_padding (filter (\<lambda>c. \<not> ascii_whitespace c) s))"
    using assms(4) by (rule strip_padding_keeps)
  then show ?thesis
    using assms(2) by (auto simp: atob_def Let_def)
qed

lemma atob_base64url:
  assumes "CHR ''-'' \<in> set s \<or> CHR ''_'' \<in> set s"
  shows "atob s = Inl InvalidCharacterError"
proof -
  have "b64_value CHR ''-'' = None" "\<not> ascii_whitespace CHR ''-''"
       "b64_value CHR ''_'' = None" "\<not> ascii_whitespace CHR ''_''"
    by (simp_all add: b64_value_def ascii_whitespace_def)
  with assms show ?thesis
    by (auto intro: atob_outside_alphabet)
qed

lemma verifySignature_undecodable:
  assumes "atob signatureB64 = Inl InvalidCharacterError"
  shows "(\<exists>e. verifySignature h jwks header headerB64 payloadB64 signatureB64 = Inl e) \<and>
         verifySignature (h\<lparr>verify := v\<rparr>) jwks header headerB64 payloadB64 signatureB64 =
           verifySignature h jwks header headerB64 payloadB64 signatureB64"
  using assms
  by (auto simp: verifySignature_def Let_def split: sum.splits jsval.splits json.splits)

text \<open>
  C10. The signature segment goes through \<^verbatim>\<open>atob\<close>, the decoder of standard base64. When
  it contains \<^verbatim>\<open>-\<close> or \<^verbatim>\<open>_\<close>, \<^verbatim>\<open>atob\<close> raises on it, \<^verbatim>\<open>validateJWT\<close> ends in an exception,
  and the cryptographic verification has no part in the result: the result is the same
  for every \<^verbatim>\<open>verify\<close> the platform could have, one that accepts the signature in its
  base64url reading included.
\<close>

theorem validateJWT_base64url_signature:
  assumes "split_char CHR ''.'' token = [headerB64, payloadB64, signatureB64]"
    and "CHR ''-'' \<in> set signatureB64 \<or> CHR ''_'' \<in> set signatureB64"
  shows "atob signatureB64 = Inl InvalidCharacterError \<and>
         (\<exists>e. fst (validateJWT h w token) = Inl e) \<and>
         (\<forall>v. validateJWT (h\<lparr>verify := v\<rparr>) w token = validateJWT h w token)"
proof -
  have undecodable: "atob signatureB64 = Inl InvalidCharacterError"
    using assms(2) by (rule atob_base64url)
  have parse: "parseJWT (h\<lparr>verify := v\<rparr>) token = parseJWT h token" for v
    by (rule parseJWT_cong) simp
  have keys: "getJWKS (h\<lparr>verify := v\<rparr>) w = getJWKS h w" for v
    by (rule getJWKS_cong) (simp_all add: fetch_json_def cong: sum.case_cong)
  have segment: "sB = signatureB64"
    if "parseJWT h token = Inr (header, payload, hB, pB, sB)" for header payload hB pB sB
    using parseJWT_segments [OF that] assms(1) by simp
  have fails: "\<exists>e. fst (validateJWT h w token) = Inl e"
  proof (cases "parseJWT h token")
    case (Inl e)
    then show ?thesis by (simp add: validateJWT_def)
  next
    case (Inr parsed)
    obtain header payload hB pB where parsed:
      "parseJWT h token = Inr (header, payload, hB, pB, signatureB64)"
      using Inr segment by (cases parsed) auto
    obtain r w' where r: "getJWKS h w = (r, w')"
      by (cases "getJWKS h w") auto
    show ?thesis
    proof (cases r)
      case (Inl e)
      then show ?thesis
        using parsed r by (simp add: validateJWT_def)
    next
      case (Inr jwks)
      obtain e where "verifySignature h jwks header hB pB signatureB64 = Inl e"
        using verifySignature_undecodable [OF undecodable] by blast
      then show ?thesis
        using parsed r Inr by (simp add: validateJWT_def)
    qed
  qed
  have same: "validateJWT (h\<lparr>verify := v\<rparr>) w token = validateJWT h w token" for v
  proof (cases "parseJWT h token")
    case (Inl e)
    then show ?thesis by (simp add: validateJWT_def parse)
  next
    case (Inr parsed)
    obtain header payload hB pB where parsed:
      "parseJWT h token = Inr (header, payload, hB, pB, signatureB64)"
      using Inr segment by (cases parsed) auto
    obtain r w' where r: "getJWKS h w = (r, w')"
      by (cases "getJWKS h w") auto
    show ?thesis
    proof (cases r)
      case (Inl e)
      then show ?thesis
        using parsed r by (simp add: validateJWT_def parse keys)
    next
      case (Inr jwks)
      obtain e where e: "verifySignature h jwks header hB pB signatureB64 = Inl e"
        using verifySignature_undecodable [OF undecodable] by blast
      have "verifySignature (h\<lparr>verify := v\<rparr>) jwks header hB pB signatureB64 = Inl e"
        using verifySignature_undecodable [OF undecodable, of h jwks header hB pB v] e
        by simp
      then show ?thesis
        using parsed r Inr e by (simp add: validateJWT_def parse keys)
    qed
  qed
  from undecodable fails same show ?thesis by blast
qed

theorem validateJWT_base64url_signature_witness:
  "split_char CHR ''.'' token_url = [seg_header_k1, seg_payload_u1, ''__79''] \<and>
   (CHR ''-'' \<in> set ''__79'' \<or> CHR ''_'' \<in> set ''__79'') \<and>
   atob ''__79'' = Inl InvalidCharacterError \<and>
   validateJWT sample_host initial_worker token_url = (Inl InvalidCharacterError, filled_worker) \<and>
   validateJWT (sample_host\<lparr>verify := \<lambda>a k s d. Inr True\<rparr>) initial_worker token_url =
     (Inl InvalidCharacterError, filled_worker)"
proof -
  have chars: "CHR ''-'' \<in> set ''__79'' \<or> CHR ''_'' \<in> set ''__79''"
    by simp
  note inst = validateJWT_base64url_signature [OF split_token_url chars,
      of sample_host initial_worker]
  have undecodable: "atob ''__79'' = Inl InvalidCharacterError"
    using inst by blast
  have keys: "get_prop jwks_doc ''keys'' = Inr (Val (JArr [jwk_k1]))"
    by (simp add: jwks_doc_def)
  have found: "find_jwk [jwk_k1] header_k1 = Inr (Val jwk_k1)"
    by (rule find_jwk_sample_k1) (simp add: header_k1_def)
  have import: "importKey sample_host ''jwk'' (Val jwk_k1) RS256 False [''verify'']
                  = Inr (Val jwk_k1)"
    by (simp add: sample_host_def sample_platform_def sample_importKey_def jwk_k1_def)
  have truthy: "truthy (Val jwk_k1)"
    by (simp add: jwk_k1_def)
  have "verifySignature sample_host jwks_doc header_k1 seg_header_k1 seg_payload_u1 ''__79''
          = Inl InvalidCharacterError"
    unfolding verifySignature_def
    using truthy by (simp add: keys found import undecodable del: find_jwk.simps)
  then have here: "validateJWT sample_host initial_worker token_url =
                     (Inl InvalidCharacterError, filled_worker)"
    using parse_token_url [of 200 1699999000500] getJWKS_sample_initial [of 200 1699999000500]
    by (simp add: validateJWT_def sample_host_def)
  moreover have "validateJWT (sample_host\<lparr>verify := \<lambda>a k s d. Inr True\<rparr>) initial_worker token_url
                   = validateJWT sample_host initial_worker token_url"
    using inst by blast
  ultimately show ?thesis
    using split_token_url chars undecodable by simp
qed







section \<open>Calls that follow one another, calls that overlap\<close>

text \<open>
  The step function is the same program as \<open>getJWKS\<close>: a call that runs alone, fed by
  the platform, ends after at most three steps with the result and the worker that
  \<open>getJWKS\<close> gives.
\<close>

lemma getJWKS_run_alone: "outcome (run_alone h 3 (w, Begin)) = Some (getJWKS h w)"
  by (simp add: numeral_3_eq_3 getJWKS_def Let_def split: sum.splits)

lemma getJWKS_returns_cache:
  assumes "getJWKS h w = (Inr jwks, w')"
  shows "jwksCache w' = jwks"
  using assms by (auto simp: getJWKS_def Let_def split: if_splits sum.splits)

lemma getJWKS_sequence_of_hits:
  assumes "\<forall>h \<in> set hs. cache_fresh w (now_getJWKS h)"
  shows "foldl (\<lambda>w' h. snd (getJWKS h w')) w hs = w"
  using assms by (induction hs) (simp_all add: getJWKS_hit)

lemma deliver_begin_miss:
  assumes "i < length calls" and "calls ! i = Begin" and "\<not> cache_fresh w now"
  shows "deliver (w, calls) (i, Clock now) =
           (w\<lparr>requests := requests w @ [Val (JStr oidcConfigUrl)]\<rparr>, calls[i := AwaitConfig now])"
  using assms by (auto simp: cache_fresh_def)

text \<open>
  C7, as the code has it. Once a call has returned a key set (a truthy one), calls that
  follow one another while the clock reads less than ten minutes past the cached
  timestamp change nothing, issue no fetch and return the cached key set: for them the
  key source has been invoked once. A call ten minutes or more past the timestamp
  fetches again. Refreshes are not coalesced: a call that starts while the cache is
  empty or stale issues its own fetch of the discovery document, whatever the other
  calls are waiting for.
\<close>

theorem getJWKS_not_coalesced:
  assumes "getJWKS h w = (Inr jwks, w1)" and "truthy (Val jwks)"
    and "\<forall>h' \<in> set hs. now_getJWKS h' - jwksFetchedAt w1 < 10 * 60 * 1000"
  shows "foldl (\<lambda>w' h'. snd (getJWKS h' w')) w1 hs = w1 \<and>
         (\<forall>h' \<in> set hs. getJWKS h' w1 = (Inr jwks, w1)) \<and>
         (\<forall>h' :: 'k host. 10 * 60 * 1000 \<le> now_getJWKS h' - jwksFetchedAt w1 \<longrightarrow>
            (\<exists>rest. requests (snd (getJWKS h' w1)) =
                      requests w1 @ Val (JStr oidcConfigUrl) # rest)) \<and>
         (\<forall>w' calls i now. i < length calls \<longrightarrow> calls ! i = Begin \<longrightarrow>
            \<not> cache_fresh w' now \<longrightarrow>
            deliver (w', calls) (i, Clock now) =
              (w'\<lparr>requests := requests w' @ [Val (JStr oidcConfigUrl)]\<rparr>,
               calls[i := AwaitConfig now]))"
proof -
  have cached: "jwksCache w1 = jwks"
    using assms(1) by (rule getJWKS_returns_cache)
  have fresh: "\<forall>h' \<in> set hs. cache_fresh w1 (now_getJWKS h')"
    using assms(2,3) cached by (simp add: cache_fresh_def)
  have hits: "foldl (\<lambda>w' h'. snd (getJWKS h' w')) w1 hs = w1"
    using fresh by (rule getJWKS_sequence_of_hits)
  have each: "\<forall>h' \<in> set hs. getJWKS h' w1 = (Inr jwks, w1)"
    using fresh cached by (auto simp: getJWKS_hit)
  have again: "\<forall>h' :: 'k host. 10 * 60 * 1000 \<le> now_getJWKS h' - jwksFetchedAt w1 \<longrightarrow>
            (\<exists>rest. requests (snd (getJWKS h' w1)) =
                      requests w1 @ Val (JStr oidcConfigUrl) # rest)"
  proof (intro allI impI)
    fix h' :: "'k host"
    assume "10 * 60 * 1000 \<le> now_getJWKS h' - jwksFetchedAt w1"
    then have "\<not> cache_fresh w1 (now_getJWKS h')"
      by (simp add: cache_fresh_def)
    then show "\<exists>rest. requests (snd (getJWKS h' w1)) =
                      requests w1 @ Val (JStr oidcConfigUrl) # rest"
      by (rule getJWKS_miss_requests)
  qed
  have own: "\<forall>w' calls i now. i < length calls \<longrightarrow> calls ! i = Begin \<longrightarrow>
            \<not> cache_fresh w' now \<longrightarrow>
            deliver (w', calls) (i, Clock now) =
              (w'\<lparr>requests := requests w' @ [Val (JStr oidcConfigUrl)]\<rparr>,
               calls[i := AwaitConfig now])"
    by (intro allI impI) (rule deliver_begin_miss)
  from hits each again own show ?thesis
    by (intro conjI)
qed

theorem getJWKS_not_coalesced_witness:
  "getJWKS sample_host initial_worker = (Inr jwks_doc, filled_worker) \<and>
   truthy (Val jwks_doc) \<and>
   now_getJWKS sample_host - jwksFetchedAt filled_worker < 10 * 60 * 1000 \<and>
   now_getJWKS (sample_platform 200 1699999000900) - jwksFetchedAt filled_worker
     < 10 * 60 * 1000 \<and>
   foldl (\<lambda>w' h'. snd (getJWKS h' w')) filled_worker
     [sample_host, sample_platform 200 1699999000900] = filled_worker \<and>
   getJWKS (sample_platform 200 1699999000900) filled_worker = (Inr jwks_doc, filled_worker) \<and>
   10 * 60 * 1000 \<le> now_getJWKS (sample_host\<lparr>now_getJWKS := 1699999600000\<rparr>)
                       - jwksFetchedAt filled_worker \<and>
   (\<exists>rest. requests (snd (getJWKS (sample_host\<lparr>now_getJWKS := 1699999600000\<rparr>) filled_worker))
            = requests filled_worker @ Val (JStr oidcConfigUrl) # rest) \<and>
   \<not> cache_fresh initial_worker 1699999000001 \<and>
   deliver (initial_worker\<lparr>requests := [Val (JStr oidcConfigUrl)]\<rparr>,
            [AwaitConfig 1699999000000, Begin]) (1, Clock 1699999000001) =
     (initial_worker\<lparr>requests := [Val (JStr oidcConfigUrl), Val (JStr oidcConfigUrl)]\<rparr>,
      [AwaitConfig 1699999000000, AwaitConfig 1699999000001])"
proof -
  have first: "getJWKS sample_host initial_worker = (Inr jwks_doc, filled_worker)"
    by (simp add: sample_host_def getJWKS_sample_initial)
  have truthy: "truthy (Val jwks_doc)"
    by (simp add: jwks_doc_def)
  have within: "\<forall>h' \<in> set [sample_host, sample_platform 200 1699999000900].
      now_getJWKS h' - jwksFetchedAt filled_worker < 10 * 60 * 1000"
    by (simp add: sample_host_def sample_platform_def filled_worker_def)
  have late: "10 * 60 * 1000 \<le> now_getJWKS (sample_host\<lparr>now_getJWKS := 1699999600000\<rparr>)
                       - jwksFetchedAt filled_worker"
    by (simp add: filled_worker_def)
  have stale: "\<not> cache_fresh (initial_worker\<lparr>requests := [Val (JStr oidcConfigUrl)]\<rparr>)
                  1699999000001"
    by (simp add: cache_fresh_def initial_worker_def)
  have index: "1 < length [AwaitConfig 1699999000000, Begin]"
              "[AwaitConfig 1699999000000, Begin] ! 1 = Begin"
    by simp_all
  note inst = getJWKS_not_coalesced [OF first truthy within]
  have a: "foldl (\<lambda>w' h'. snd (getJWKS h' w')) filled_worker
     [sample_host, sample_platform 200 1699999000900] = filled_worker"
    by (rule inst [THEN conjunct1])
  have "\<forall>h' \<in> set [sample_host, sample_platform 200 1699999000900].
          getJWKS h' filled_worker = (Inr jwks_doc, filled_worker)"
    by (rule inst [THEN conjunct2, THEN conjunct1])
  then have b: "getJWKS (sample_platform 200 1699999000900) filled_worker =
                  (Inr jwks_doc, filled_worker)"
    by simp
  have c: "\<exists>rest. requests (snd (getJWKS (sample_host\<lparr>now_getJWKS := 1699999600000\<rparr>) filled_worker))
            = requests filled_worker @ Val (JStr oidcConfigUrl) # rest"
    by (rule inst [THEN conjunct2, THEN conjunct2, THEN conjunct1, rule_format, OF late])
  have d: "deliver (initial_worker\<lparr>requests := [Val (JStr oidcConfigUrl)]\<rparr>,
            [AwaitConfig 1699999000000, Begin]) (1, Clock 1699999000001) =
     (initial_worker\<lparr>requests := [Val (JStr oidcConfigUrl)]\<rparr>
        \<lparr>requests := requests (initial_worker\<lparr>requests := [Val (JStr oidcConfigUrl)]\<rparr>)
                       @ [Val (JStr oidcConfigUrl)]\<rparr>,
      [AwaitConfig 1699999000000, Begin][1 := AwaitConfig 1699999000001])"
    by (rule inst [THEN conjunct2, THEN conjunct2, THEN conjunct2, rule_format,
          OF index stale])
  have d': "deliver (initial_worker\<lparr>requests := [Val (JStr oidcConfigUrl)]\<rparr>,
            [AwaitConfig 1699999000000, Begin]) (1, Clock 1699999000001) =
     (initial_worker\<lparr>requests := [Val (JStr oidcConfigUrl), Val (JStr oidcConfigUrl)]\<rparr>,
      [AwaitConfig 1699999000000, AwaitConfig 1699999000001])"
    using d by simp
  have within1: "now_getJWKS sample_host - jwksFetchedAt filled_worker < 10 * 60 * 1000"
    and within2: "now_getJWKS (sample_platform 200 1699999000900) - jwksFetchedAt filled_worker
                    < 10 * 60 * 1000"
    using within by simp_all
  from first truthy within1 within2 a b late c initial_not_fresh [of 1699999000001] d'
  show ?thesis
    by (intro conjI)
qed

text \<open>
  C7 as stated fails: two calls start on an empty cache one millisecond apart, the second
  before the discovery document of the first has arrived. Each issues its own two
  fetches, so the key source is invoked twice within one window, not once.
\<close>

theorem coalescing_counterexample:
  "run initial_worker [Begin, Begin]
     [(0, Clock 1699999000000), (1, Clock 1699999000001),
      (0, Settled (Inr discovery_doc)), (1, Settled (Inr discovery_doc)),
      (0, Settled (Inr jwks_doc)), (1, Settled (Inr jwks_doc))] =
   (\<lparr>jwksCache = jwks_doc, jwksFetchedAt = 1699999000001,
     requests = [Val (JStr oidcConfigUrl), Val (JStr oidcConfigUrl),
                 Val (JStr keys_url), Val (JStr keys_url)]\<rparr>,
    [Returned jwks_doc, Returned jwks_doc])"
  by (simp add: run_def initial_worker_def discovery_doc_def)


end
